theory Spec2Isabelle
  imports Complex_Main "HOL-Library.Word"
begin

section \<open>Numbers and vectors\<close>

text \<open>
  The C++ types \<open>float\<close> and \<open>double\<close> are idealised as \<open>real\<close>: arithmetic is exact,
  there is no rounding, no NaN and no infinity.  The vector and matrix types are those of
  the GLM library (external to the repository); their operations are written out from
  GLM's column-major definitions.
\<close>

datatype vec3 = vec3 (vx: real) (vy: real) (vz: real)

datatype vec4 = vec4 (wx: real) (wy: real) (wz: real) (ww: real)

text \<open>A \<open>glm::mat4\<close> is four columns; \<open>m[c]\<close> is column \<open>c\<close>.\<close>

datatype mat4 = mat4 (col0: vec4) (col1: vec4) (col2: vec4) (col3: vec4)

definition vadd :: "vec3 \<Rightarrow> vec3 \<Rightarrow> vec3" where
  "vadd a b = vec3 (vx a + vx b) (vy a + vy b) (vz a + vz b)"

definition vsub :: "vec3 \<Rightarrow> vec3 \<Rightarrow> vec3" where
  "vsub a b = vec3 (vx a - vx b) (vy a - vy b) (vz a - vz b)"

definition smul :: "real \<Rightarrow> vec3 \<Rightarrow> vec3" where
  "smul k a = vec3 (k * vx a) (k * vy a) (k * vz a)"

definition dot :: "vec3 \<Rightarrow> vec3 \<Rightarrow> real" where
  "dot a b = vx a * vx b + vy a * vy b + vz a * vz b"

definition cross :: "vec3 \<Rightarrow> vec3 \<Rightarrow> vec3" where
  "cross a b = vec3 (vy a * vz b - vy b * vz a)
                    (vz a * vx b - vz b * vx a)
                    (vx a * vy b - vx b * vy a)"

definition vlength :: "vec3 \<Rightarrow> real" where
  "vlength a = sqrt (dot a a)"

text \<open>
  \<open>glm::normalize(v)\<close> is \<open>v * inversesqrt(dot(v, v))\<close>.  On the zero vector GLM yields
  NaN components; here the division by zero yields the zero vector.
\<close>

definition normalize :: "vec3 \<Rightarrow> vec3" where
  "normalize v = smul (1 / sqrt (dot v v)) v"

definition radians :: "real \<Rightarrow> real" where
  "radians d = d * (pi / 180)"

section \<open>ViewManager.cpp\<close>

subsection \<open>State\<close>

text \<open>
  The fields of the \<open>Camera\<close> class that ViewManager.cpp reads and writes (the class
  itself is declared elsewhere).
\<close>

record Camera =
  Position :: vec3
  Front :: vec3
  Up :: vec3
  Zoom :: real
  MovementSpeed :: real

text \<open>
  The variables of the anonymous namespace, together with the two effects on the window
  that the code requests from GLFW (close request, cursor capture).  A null
  \<open>g_pCamera\<close> is \<open>None\<close>.
\<close>

record ViewState =
  g_pCamera :: "Camera option"
  gLastX :: real
  gLastY :: real
  gFirstMouse :: bool
  yaw :: real
  pitch :: real
  fov :: real
  bOrthographicProjection :: bool
  windowShouldClose :: bool
  cursorDisabled :: bool

datatype error = NullPointer | IndexOutOfRange

definition WINDOW_WIDTH :: real where "WINDOW_WIDTH = 1000"
definition WINDOW_HEIGHT :: real where "WINDOW_HEIGHT = 800"

text \<open>The namespace-scope initialisers (before any ViewManager is constructed).\<close>

definition globals_init :: ViewState where
  "globals_init = \<lparr> g_pCamera = None,
                    gLastX = WINDOW_WIDTH / 2,
                    gLastY = WINDOW_HEIGHT / 2,
                    gFirstMouse = True,
                    yaw = - 89,
                    pitch = 0,
                    fov = 45,
                    bOrthographicProjection = False,
                    windowShouldClose = False,
                    cursorDisabled = False \<rparr>"

text \<open>The camera installed by the constructor \<open>ViewManager::ViewManager\<close>.\<close>

definition ctor_camera :: Camera where
  "ctor_camera = \<lparr> Position = vec3 0 5 12,
                   Front = vec3 0 (- 0.5) (- 2),
                   Up = vec3 0 1 0,
                   Zoom = 80,
                   MovementSpeed = 0.1 \<rparr>"

definition ViewManager :: "ViewState \<Rightarrow> ViewState" where
  "ViewManager s = s\<lparr> g_pCamera := Some ctor_camera \<rparr>"

subsection \<open>Callbacks\<close>

text \<open>
  \<open>scrollCallback\<close>: dereferences \<open>g_pCamera\<close> without a null check.
\<close>

definition scrollCallback :: "real \<Rightarrow> real \<Rightarrow> ViewState \<Rightarrow> error + ViewState" where
  "scrollCallback xOffset yOffset s =
     (case g_pCamera s of
        None \<Rightarrow> Inl NullPointer
      | Some c \<Rightarrow>
          let c1 = c\<lparr> MovementSpeed := MovementSpeed c + yOffset * 0.1 \<rparr>;
              c2 = (if MovementSpeed c1 < 0.1 then c1\<lparr> MovementSpeed := 0.1 \<rparr> else c1);
              c3 = (if MovementSpeed c2 > 1.0 then c2\<lparr> MovementSpeed := 1.0 \<rparr> else c2)
          in Inr (s\<lparr> g_pCamera := Some c3 \<rparr>))"

text \<open>The direction vector computed from yaw and pitch (lines 189-192).\<close>

definition direction :: "real \<Rightarrow> real \<Rightarrow> vec3" where
  "direction yw pt = vec3 (cos (radians yw) * cos (radians pt))
                          (sin (radians pt))
                          (sin (radians yw) * cos (radians pt))"

text \<open>
  \<open>ViewManager::Mouse_Position_Callback\<close>.  The statements run in the order of the
  source; there is no early return after the first-mouse branch.  The final assignment
  dereferences \<open>g_pCamera\<close> without a null check.
\<close>

definition Mouse_Position_Callback :: "real \<Rightarrow> real \<Rightarrow> ViewState \<Rightarrow> error + ViewState" where
  "Mouse_Position_Callback xMousePos yMousePos s =
     (let s1 = (if gFirstMouse s
                then s\<lparr> gLastX := xMousePos, gLastY := yMousePos, gFirstMouse := False \<rparr>
                else s);
          s2 = s1\<lparr> cursorDisabled := True \<rparr>;
          xOffset = xMousePos - gLastX s2;
          yOffset = gLastY s2 - yMousePos;
          s3 = s2\<lparr> gLastX := xMousePos, gLastY := yMousePos \<rparr>;
          sensitivity = 0.1;
          xOffset = xOffset * sensitivity;
          yOffset = yOffset * sensitivity;
          s4 = s3\<lparr> yaw := yaw s3 + xOffset, pitch := pitch s3 + yOffset \<rparr>;
          s5 = (if pitch s4 > 89 then s4\<lparr> pitch := 89 \<rparr> else s4);
          s6 = (if pitch s5 < - 89 then s5\<lparr> pitch := - 89 \<rparr> else s5)
      in case g_pCamera s6 of
           None \<Rightarrow> Inl NullPointer
         | Some c \<Rightarrow>
             Inr (s6\<lparr> g_pCamera := Some (c\<lparr> Front := normalize (direction (yaw s6) (pitch s6)) \<rparr>) \<rparr>))"

subsection \<open>Keyboard polling\<close>

datatype key = KEY_ESCAPE | KEY_W | KEY_S | KEY_A | KEY_D | KEY_Q | KEY_E | KEY_P | KEY_O

text \<open>
  \<open>ViewManager::ProcessKeyboardEvents\<close>.  The argument \<open>pressed k\<close> is the answer of
  \<open>glfwGetKey(m_pWindow, k) == GLFW_PRESS\<close> during this call.
\<close>

definition move_camera :: "(key \<Rightarrow> bool) \<Rightarrow> Camera \<Rightarrow> Camera" where
  "move_camera pressed c =
     (let c1 = (if pressed KEY_W
                then c\<lparr> Position := vadd (Position c) (smul (MovementSpeed c) (Front c)) \<rparr>
                else c);
          c2 = (if pressed KEY_S
                then c1\<lparr> Position := vsub (Position c1) (smul (MovementSpeed c1) (Front c1)) \<rparr>
                else c1);
          c3 = (if pressed KEY_A
                then c2\<lparr> Position := vsub (Position c2)
                           (smul (MovementSpeed c2) (normalize (cross (Front c2) (Up c2)))) \<rparr>
                else c2);
          c4 = (if pressed KEY_D
                then c3\<lparr> Position := vadd (Position c3)
                           (smul (MovementSpeed c3) (normalize (cross (Front c3) (Up c3)))) \<rparr>
                else c3);
          c5 = (if pressed KEY_Q
                then c4\<lparr> Position := vadd (Position c4) (smul (MovementSpeed c4) (Up c4)) \<rparr>
                else c4);
          c6 = (if pressed KEY_E
                then c5\<lparr> Position := vsub (Position c5) (smul (MovementSpeed c5) (Up c5)) \<rparr>
                else c5)
      in c6)"

definition ProcessKeyboardEvents :: "(key \<Rightarrow> bool) \<Rightarrow> ViewState \<Rightarrow> ViewState" where
  "ProcessKeyboardEvents pressed s =
     (let s1 = (if pressed KEY_ESCAPE then s\<lparr> windowShouldClose := True \<rparr> else s)
      in case g_pCamera s1 of
           None \<Rightarrow> s1
         | Some c \<Rightarrow>
             let s2 = s1\<lparr> g_pCamera := Some (move_camera pressed c) \<rparr>;
                 s3 = (if pressed KEY_P then s2\<lparr> bOrthographicProjection := False \<rparr> else s2);
                 s4 = (if pressed KEY_O then s3\<lparr> bOrthographicProjection := True \<rparr> else s3)
             in s4)"

subsection \<open>The program's lifetime as a sequence of inputs\<close>

text \<open>
  After construction the windowing system delivers cursor positions and scroll offsets to
  the callbacks, and every frame polls the keyboard.
\<close>

datatype input = CursorPos real real | Scroll real real | Poll "key \<Rightarrow> bool"

fun step :: "input \<Rightarrow> ViewState \<Rightarrow> error + ViewState" where
  "step (CursorPos x y) s = Mouse_Position_Callback x y s"
| "step (Scroll x y) s = scrollCallback x y s"
| "step (Poll pressed) s = Inr (ProcessKeyboardEvents pressed s)"

fun run :: "input list \<Rightarrow> ViewState \<Rightarrow> error + ViewState" where
  "run [] s = Inr s"
| "run (i # is) s = (case step i s of Inl e \<Rightarrow> Inl e | Inr s' \<Rightarrow> run is s')"

section \<open>SceneManager.cpp\<close>

subsection \<open>GLM matrices\<close>

text \<open>
  The GLM operations used by \<open>SetTransformations\<close> (library code, column-major):
  scaling, translation and rotation matrices built from the identity, the product of a
  matrix with a vector and of two matrices.
\<close>

definition vscale4 :: "real \<Rightarrow> vec4 \<Rightarrow> vec4" where
  "vscale4 k v = vec4 (k * wx v) (k * wy v) (k * wz v) (k * ww v)"

definition vadd4 :: "vec4 \<Rightarrow> vec4 \<Rightarrow> vec4" where
  "vadd4 a b = vec4 (wx a + wx b) (wy a + wy b) (wz a + wz b) (ww a + ww b)"

text \<open>\<open>m * v = m[0]*v.x + m[1]*v.y + m[2]*v.z + m[3]*v.w\<close>\<close>

definition mat_vec :: "mat4 \<Rightarrow> vec4 \<Rightarrow> vec4" where
  "mat_vec m v = vadd4 (vadd4 (vadd4 (vscale4 (wx v) (col0 m)) (vscale4 (wy v) (col1 m)))
                              (vscale4 (wz v) (col2 m)))
                       (vscale4 (ww v) (col3 m))"

text \<open>Column \<open>j\<close> of \<open>a * b\<close> is \<open>a\<close> applied to column \<open>j\<close> of \<open>b\<close>.\<close>

definition mat_mul :: "mat4 \<Rightarrow> mat4 \<Rightarrow> mat4" where
  "mat_mul a b = mat4 (mat_vec a (col0 b)) (mat_vec a (col1 b))
                      (mat_vec a (col2 b)) (mat_vec a (col3 b))"

definition glm_scale :: "vec3 \<Rightarrow> mat4" where
  "glm_scale v = mat4 (vec4 (vx v) 0 0 0) (vec4 0 (vy v) 0 0) (vec4 0 0 (vz v) 0) (vec4 0 0 0 1)"

definition glm_translate :: "vec3 \<Rightarrow> mat4" where
  "glm_translate v = mat4 (vec4 1 0 0 0) (vec4 0 1 0 0) (vec4 0 0 1 0) (vec4 (vx v) (vy v) (vz v) 1)"

text \<open>
  \<open>glm::rotate(angle, v)\<close>: with \<open>c = cos angle\<close>, \<open>s = sin angle\<close>,
  \<open>axis = normalize(v)\<close> and \<open>temp = (1 - c) * axis\<close>.
\<close>

definition glm_rotate :: "real \<Rightarrow> vec3 \<Rightarrow> mat4" where
  "glm_rotate angle v =
     (let c = cos angle;
          s = sin angle;
          axis = normalize v;
          temp = smul (1 - c) axis
      in mat4 (vec4 (c + vx temp * vx axis)
                    (vx temp * vy axis + s * vz axis)
                    (vx temp * vz axis - s * vy axis) 0)
              (vec4 (vy temp * vx axis - s * vz axis)
                    (c + vy temp * vy axis)
                    (vy temp * vz axis + s * vx axis) 0)
              (vec4 (vz temp * vx axis + s * vy axis)
                    (vz temp * vy axis - s * vx axis)
                    (c + vz temp * vz axis) 0)
              (vec4 0 0 0 1))"

subsection \<open>State and external collaborators\<close>

datatype mesh = Plane | Box | Cylinder | TaperedCylinder | Cone | Torus

text \<open>A value handed to one of the \<open>ShaderManager::set...Value\<close> methods.\<close>

datatype uvalue =
    UInt int
  | UBool bool
  | UFloat real
  | UVec2 real real
  | UVec3 vec3
  | UVec4 vec4
  | UMat4 mat4
  | USampler2D int

text \<open>
  Every call that leaves the Scene Composer is recorded, in order: uniform writes to the
  shader manager, mesh loads and draws of \<open>ShapeMeshes\<close>, and the OpenGL calls.
\<close>

datatype event =
    SetUniform string uvalue
  | LoadMesh mesh
  | DrawMesh mesh
  | GenTextures "32 word"
  | BindTexture "32 word"
  | TexParameteri string string
  | TexImage2D string nat nat
  | GenerateMipmap
  | ImageFree
  | ActiveTexture nat

record TEXTURE_INFO =
  tag :: string
  ID :: "32 word"

text \<open>
  The struct \<open>OBJECT_MATERIAL\<close>; its field \<open>tag\<close> is written \<open>mtag\<close>, the name
  \<open>tag\<close> being taken by \<open>TEXTURE_INFO\<close>.
\<close>

record OBJECT_MATERIAL =
  ambientColor :: vec3
  ambientStrength :: real
  diffuseColor :: vec3
  specularColor :: vec3
  shininess :: real
  mtag :: string

text \<open>
  \<open>m_pShaderManager\<close> is \<open>True\<close> when the pointer is not null.  \<open>m_textureIDs\<close> is
  the array of 16 entries, \<open>glNames\<close> counts the texture names OpenGL has handed out
  (the next call of \<open>glGenTextures\<close> returns \<open>glNames + 1\<close>).
\<close>

record SceneManager =
  m_pShaderManager :: bool
  m_textureIDs :: "TEXTURE_INFO list"
  m_loadedTextures :: nat
  m_objectMaterials :: "OBJECT_MATERIAL list"
  glNames :: nat
  calls :: "event list"

definition emit :: "event list \<Rightarrow> SceneManager \<Rightarrow> SceneManager" where
  "emit es s = s\<lparr> calls := calls s @ es \<rparr>"

text \<open>The constructor \<open>SceneManager::SceneManager\<close>.\<close>

definition SceneManager_ctor :: "bool \<Rightarrow> SceneManager" where
  "SceneManager_ctor pShaderManager =
     \<lparr> m_pShaderManager = pShaderManager,
       m_textureIDs = replicate 16 \<lparr> tag = ''/0'', ID = - 1 \<rparr>,
       m_loadedTextures = 0,
       m_objectMaterials = [],
       glNames = 0,
       calls = [] \<rparr>"

text \<open>Statements in sequence; the first failure ends the run.\<close>

fun seq :: "('s \<Rightarrow> error + 's) list \<Rightarrow> 's \<Rightarrow> error + 's" where
  "seq [] s = Inr s"
| "seq (c # cs) s = (case c s of Inl e \<Rightarrow> Inl e | Inr s' \<Rightarrow> seq cs s')"

subsection \<open>Textures\<close>

text \<open>
  What \<open>stbi_load\<close> answers for a file name: \<open>None\<close> for a null pointer, otherwise
  width, height and channel count.
\<close>

record image =
  width :: nat
  height :: nat
  colorChannels :: nat

text \<open>
  \<open>SceneManager::CreateGLTexture\<close>.  The unsupported-channel branch returns before the
  table is touched.  Writing entry \<open>m_loadedTextures\<close> of the 16-entry array is out of
  range once 16 textures are loaded.
\<close>

definition CreateGLTexture ::
  "(string \<Rightarrow> image option) \<Rightarrow> string \<Rightarrow> string \<Rightarrow> SceneManager \<Rightarrow> error + (bool \<times> SceneManager)" where
  "CreateGLTexture stbi_load filename tg s =
     (case stbi_load filename of
        None \<Rightarrow> Inr (False, s)
      | Some img \<Rightarrow>
          let textureID = (word_of_nat (glNames s + 1) :: 32 word);
              s1 = emit [GenTextures textureID,
                         BindTexture textureID,
                         TexParameteri ''GL_TEXTURE_WRAP_S'' ''GL_REPEAT'',
                         TexParameteri ''GL_TEXTURE_WRAP_T'' ''GL_REPEAT'',
                         TexParameteri ''GL_TEXTURE_MIN_FILTER'' ''GL_LINEAR'',
                         TexParameteri ''GL_TEXTURE_MAG_FILTER'' ''GL_LINEAR'']
                        (s\<lparr> glNames := glNames s + 1 \<rparr>)
          in if colorChannels img \<noteq> 3 \<and> colorChannels img \<noteq> 4 then Inr (False, s1)
             else
               let s2 = emit [TexImage2D (if colorChannels img = 3 then ''GL_RGB8'' else ''GL_RGBA8'')
                                (width img) (height img),
                              GenerateMipmap, ImageFree, BindTexture 0] s1
               in if m_loadedTextures s2 < length (m_textureIDs s2)
                  then Inr (True,
                            s2\<lparr> m_textureIDs :=
                                  (m_textureIDs s2)[m_loadedTextures s2 :=
                                     \<lparr> tag = tg, ID = textureID \<rparr>],
                                m_loadedTextures := m_loadedTextures s2 + 1 \<rparr>)
                  else Inl IndexOutOfRange)"

text \<open>\<open>SceneManager::BindGLTextures\<close>: the loop over the loaded entries.\<close>

function BindGLTextures_loop :: "nat \<Rightarrow> SceneManager \<Rightarrow> error + SceneManager" where
  "BindGLTextures_loop i s =
     (if i < m_loadedTextures s
      then (if i < length (m_textureIDs s)
            then BindGLTextures_loop (i + 1)
                   (emit [ActiveTexture i, BindTexture (ID (m_textureIDs s ! i))] s)
            else Inl IndexOutOfRange)
      else Inr s)"
  by pat_completeness auto
termination
  by (relation "measure (\<lambda>(i, s). m_loadedTextures s - i)") (auto simp: emit_def)

definition BindGLTextures :: "SceneManager \<Rightarrow> error + SceneManager" where
  "BindGLTextures s = BindGLTextures_loop 0 s"

text \<open>
  \<open>SceneManager::FindTextureSlot\<close>: the while loop with its three variables.  Reading
  an entry beyond the 16 of the array is out of range.
\<close>

function FindTextureSlot_loop ::
  "SceneManager \<Rightarrow> string \<Rightarrow> int \<Rightarrow> nat \<Rightarrow> bool \<Rightarrow> error + int" where
  "FindTextureSlot_loop s tg textureSlot index bFound =
     (if index < m_loadedTextures s \<and> bFound = False
      then (if index < length (m_textureIDs s)
            then (if tag (m_textureIDs s ! index) = tg
                  then FindTextureSlot_loop s tg (int index) index True
                  else FindTextureSlot_loop s tg textureSlot (index + 1) bFound)
            else Inl IndexOutOfRange)
      else Inr textureSlot)"
  by pat_completeness auto
termination
  by (relation "measure (\<lambda>(s, tg, slot, index, bFound).
         2 * (m_loadedTextures s - index) + (if bFound then 0 else 1))") auto

definition FindTextureSlot :: "SceneManager \<Rightarrow> string \<Rightarrow> error + int" where
  "FindTextureSlot s tg = FindTextureSlot_loop s tg (- 1) 0 False"

subsection \<open>Materials\<close>

text \<open>
  \<open>SceneManager::FindMaterial\<close>.  The reference parameter \<open>material\<close> comes in with
  the caller's content and goes out next to the return value.  The value returned after
  the loop is the constant \<open>true\<close> (line 251).
\<close>

function FindMaterial_loop ::
  "OBJECT_MATERIAL list \<Rightarrow> string \<Rightarrow> OBJECT_MATERIAL \<Rightarrow> nat \<Rightarrow> bool \<Rightarrow> OBJECT_MATERIAL" where
  "FindMaterial_loop ms tg material index bFound =
     (if index < length ms \<and> bFound = False
      then (if mtag (ms ! index) = tg
            then FindMaterial_loop ms tg
                   (material\<lparr> ambientColor := ambientColor (ms ! index),
                              ambientStrength := ambientStrength (ms ! index),
                              diffuseColor := diffuseColor (ms ! index),
                              specularColor := specularColor (ms ! index),
                              shininess := shininess (ms ! index) \<rparr>)
                   index True
            else FindMaterial_loop ms tg material (index + 1) bFound)
      else material)"
  by pat_completeness auto
termination
  by (relation "measure (\<lambda>(ms, tg, material, index, bFound).
         2 * (length ms - index) + (if bFound then 0 else 1))") auto

definition FindMaterial :: "SceneManager \<Rightarrow> string \<Rightarrow> OBJECT_MATERIAL \<Rightarrow> bool \<times> OBJECT_MATERIAL" where
  "FindMaterial s tg material =
     (if length (m_objectMaterials s) = 0 then (False, material)
      else (True, FindMaterial_loop (m_objectMaterials s) tg material 0 False))"

subsection \<open>Publishing to the shader\<close>

definition SetTransformations ::
  "vec3 \<Rightarrow> real \<Rightarrow> real \<Rightarrow> real \<Rightarrow> vec3 \<Rightarrow> SceneManager \<Rightarrow> error + SceneManager" where
  "SetTransformations scaleXYZ XrotationDegrees YrotationDegrees ZrotationDegrees positionXYZ s =
     (let scale = glm_scale scaleXYZ;
          rotationX = glm_rotate (radians XrotationDegrees) (vec3 1 0 0);
          rotationY = glm_rotate (radians YrotationDegrees) (vec3 0 1 0);
          rotationZ = glm_rotate (radians ZrotationDegrees) (vec3 0 0 1);
          translation = glm_translate positionXYZ;
          modelView = mat_mul (mat_mul (mat_mul (mat_mul translation rotationX) rotationY) rotationZ) scale
      in if m_pShaderManager s then Inr (emit [SetUniform ''model'' (UMat4 modelView)] s)
         else Inr s)"

definition SetShaderColor :: "real \<Rightarrow> real \<Rightarrow> real \<Rightarrow> real \<Rightarrow> SceneManager \<Rightarrow> error + SceneManager" where
  "SetShaderColor redColorValue greenColorValue blueColorValue alphaValue s =
     (let currentColor = vec4 redColorValue greenColorValue blueColorValue alphaValue
      in if m_pShaderManager s then Inr (emit [SetUniform ''objectColor'' (UVec4 currentColor)] s)
         else Inr s)"

definition SetShaderTexture :: "string \<Rightarrow> SceneManager \<Rightarrow> error + SceneManager" where
  "SetShaderTexture textureTag s =
     (if m_pShaderManager s
      then (let s1 = emit [SetUniform ''bUseTexture'' (UInt 1)] s
            in case FindTextureSlot s1 textureTag of
                 Inl e \<Rightarrow> Inl e
               | Inr textureID \<Rightarrow> Inr (emit [SetUniform ''objectTexture'' (USampler2D textureID)] s1))
      else Inr s)"

definition SetTextureUVScale :: "real \<Rightarrow> real \<Rightarrow> SceneManager \<Rightarrow> error + SceneManager" where
  "SetTextureUVScale u v s =
     (if m_pShaderManager s then Inr (emit [SetUniform ''UVscale'' (UVec2 u v)] s) else Inr s)"

text \<open>
  \<open>SceneManager::SetShaderMaterial\<close>.  The local \<open>material\<close> is declared without an
  initialiser; \<open>uninit\<close> is whatever it holds at that point.  The five writes go through
  \<open>m_pShaderManager\<close> without a null check.
\<close>

definition SetShaderMaterial :: "OBJECT_MATERIAL \<Rightarrow> string \<Rightarrow> SceneManager \<Rightarrow> error + SceneManager" where
  "SetShaderMaterial uninit materialTag s =
     (if length (m_objectMaterials s) > 0
      then (let (bReturn, material) = FindMaterial s materialTag uninit
            in if bReturn = True
               then (if m_pShaderManager s
                     then Inr (emit [SetUniform ''material.ambientColor'' (UVec3 (ambientColor material)),
                                     SetUniform ''material.ambientStrength'' (UFloat (ambientStrength material)),
                                     SetUniform ''material.diffuseColor'' (UVec3 (diffuseColor material)),
                                     SetUniform ''material.specularColor'' (UVec3 (specularColor material)),
                                     SetUniform ''material.shininess'' (UFloat (shininess material))] s)
                     else Inl NullPointer)
               else Inr s)
      else Inr s)"


subsection \<open>Scene setup\<close>

text \<open>A call whose boolean result the caller drops.\<close>

definition discard :: "('s \<Rightarrow> error + (bool \<times> 's)) \<Rightarrow> 's \<Rightarrow> error + 's" where
  "discard f s = (case f s of Inl e \<Rightarrow> Inl e | Inr (bReturn, s') \<Rightarrow> Inr s')"

definition LoadSceneTextures :: "(string \<Rightarrow> image option) \<Rightarrow> SceneManager \<Rightarrow> error + SceneManager" where
  "LoadSceneTextures stbi_load =
     seq [discard (CreateGLTexture stbi_load ''ceramicTexture.jpg'' ''mug''),
          discard (CreateGLTexture stbi_load ''stoneTexture.jpg'' ''table''),
          discard (CreateGLTexture stbi_load ''blackPlasticTexture.jpg'' ''blackPlastic''),
          discard (CreateGLTexture stbi_load ''whitePlasticTexture.jpg'' ''whitePlastic''),
          discard (CreateGLTexture stbi_load ''bluePlasticTexture.jpg'' ''bluePlastic''),
          discard (CreateGLTexture stbi_load ''redPaperTexture.jpg'' ''redPaper''),
          discard (CreateGLTexture stbi_load ''blackBookTexture.jpg'' ''blackBook''),
          discard (CreateGLTexture stbi_load ''brownBookTexture.jpg'' ''brownBook''),
          BindGLTextures]"

definition ceramicMaterial :: OBJECT_MATERIAL where
  "ceramicMaterial = \<lparr> ambientColor = vec3 0.7 0.7 0.7, ambientStrength = 0.05,
                       diffuseColor = vec3 0.7 0.7 0.7, specularColor = vec3 0.8 0.8 0.8,
                       shininess = 4, mtag = ''ceramic'' \<rparr>"

definition marbleMaterial :: OBJECT_MATERIAL where
  "marbleMaterial = \<lparr> ambientColor = vec3 0.05 0.05 0.05, ambientStrength = 0.1,
                      diffuseColor = vec3 0.1 0.1 0.1, specularColor = vec3 0.7 0.7 0.7,
                      shininess = 20, mtag = ''marble'' \<rparr>"

definition paperMaterial :: OBJECT_MATERIAL where
  "paperMaterial = \<lparr> ambientColor = vec3 0.7 0.7 0.65, ambientStrength = 0.1,
                     diffuseColor = vec3 1 1 0.9, specularColor = vec3 0.2 0.2 0.2,
                     shininess = 2, mtag = ''paper'' \<rparr>"

definition plasticMaterial :: OBJECT_MATERIAL where
  "plasticMaterial = \<lparr> ambientColor = vec3 0.05 0.05 0.05, ambientStrength = 0.1,
                       diffuseColor = vec3 0.4 0.4 0.4, specularColor = vec3 0.7 0.7 0.7,
                       shininess = 60, mtag = ''plastic'' \<rparr>"

definition dullPlasticMaterial :: OBJECT_MATERIAL where
  "dullPlasticMaterial = \<lparr> ambientColor = vec3 0.05 0.05 0.05, ambientStrength = 0.1,
                           diffuseColor = vec3 0.4 0.4 0.4, specularColor = vec3 0.7 0.7 0.7,
                           shininess = 20, mtag = ''dullPlastic'' \<rparr>"

definition glassMaterial :: OBJECT_MATERIAL where
  "glassMaterial = \<lparr> ambientColor = vec3 0.1 0.1 0.1, ambientStrength = 0.1,
                     diffuseColor = vec3 0.2 0.2 0.2, specularColor = vec3 0.9 0.9 0.9,
                     shininess = 100, mtag = ''glass'' \<rparr>"

definition push_back :: "OBJECT_MATERIAL \<Rightarrow> SceneManager \<Rightarrow> error + SceneManager" where
  "push_back m s = Inr (s\<lparr> m_objectMaterials := m_objectMaterials s @ [m] \<rparr>)"

definition DefineObjectMaterials :: "SceneManager \<Rightarrow> error + SceneManager" where
  "DefineObjectMaterials =
     seq [push_back ceramicMaterial, push_back marbleMaterial, push_back paperMaterial,
          push_back plasticMaterial, push_back dullPlasticMaterial, push_back glassMaterial]"

text \<open>
  \<open>SceneManager::SetupSceneLights\<close>: 25 writes through \<open>m_pShaderManager\<close>, none of
  them behind a null check.
\<close>

definition light_uniforms :: "string \<Rightarrow> vec3 \<Rightarrow> vec3 \<Rightarrow> vec3 \<Rightarrow> vec3 \<Rightarrow> real \<Rightarrow> real \<Rightarrow> event list" where
  "light_uniforms name pos amb dif spec focal intensity =
     [SetUniform (name @ ''.position'') (UVec3 pos),
      SetUniform (name @ ''.ambientColor'') (UVec3 amb),
      SetUniform (name @ ''.diffuseColor'') (UVec3 dif),
      SetUniform (name @ ''.specularColor'') (UVec3 spec),
      SetUniform (name @ ''.focalStrength'') (UFloat focal),
      SetUniform (name @ ''.specularIntensity'') (UFloat intensity)]"

definition SetupSceneLights :: "SceneManager \<Rightarrow> error + SceneManager" where
  "SetupSceneLights s =
     (if m_pShaderManager s
      then Inr (emit
        (light_uniforms ''lightSources[0]'' (vec3 (- 20) 15 (- 16.5)) (vec3 0.2 0.2 0.2)
             (vec3 1 0.95 0.9) (vec3 1 0.95 0.9) 10 0.2
         @ light_uniforms ''lightSources[1]'' (vec3 (- 20) 6 (- 16.5)) (vec3 0.2 0.2 0.2)
             (vec3 0.8 0.75 0.7) (vec3 0.5 0.5 0.5) 0.01 0
         @ light_uniforms ''lightSources[2]'' (vec3 20 15 (- 16.5)) (vec3 0.2 0.2 0.2)
             (vec3 1 0.95 0.9) (vec3 1 0.95 0.9) 10 0.2
         @ light_uniforms ''lightSources[3]'' (vec3 20 6 (- 16.5)) (vec3 0.2 0.2 0.2)
             (vec3 0.8 0.75 0.7) (vec3 0.5 0.5 0.5) 0.01 0
         @ [SetUniform ''bUseLighting'' (UBool True)]) s)
      else Inl NullPointer)"

text \<open>The \<open>ShapeMeshes\<close> object \<open>m_basicMeshes\<close> is created by the constructor and never null.\<close>

definition LoadPlaneMesh :: "SceneManager \<Rightarrow> error + SceneManager" where
  "LoadPlaneMesh s = Inr (emit [LoadMesh Plane] s)"
definition LoadTaperedCylinderMesh :: "SceneManager \<Rightarrow> error + SceneManager" where
  "LoadTaperedCylinderMesh s = Inr (emit [LoadMesh TaperedCylinder] s)"
definition LoadTorusMesh :: "SceneManager \<Rightarrow> error + SceneManager" where
  "LoadTorusMesh s = Inr (emit [LoadMesh Torus] s)"
definition LoadCylinderMesh :: "SceneManager \<Rightarrow> error + SceneManager" where
  "LoadCylinderMesh s = Inr (emit [LoadMesh Cylinder] s)"
definition LoadConeMesh :: "SceneManager \<Rightarrow> error + SceneManager" where
  "LoadConeMesh s = Inr (emit [LoadMesh Cone] s)"
definition LoadBoxMesh :: "SceneManager \<Rightarrow> error + SceneManager" where
  "LoadBoxMesh s = Inr (emit [LoadMesh Box] s)"

definition DrawPlaneMesh :: "SceneManager \<Rightarrow> error + SceneManager" where
  "DrawPlaneMesh s = Inr (emit [DrawMesh Plane] s)"
definition DrawTaperedCylinderMesh :: "SceneManager \<Rightarrow> error + SceneManager" where
  "DrawTaperedCylinderMesh s = Inr (emit [DrawMesh TaperedCylinder] s)"
definition DrawTorusMesh :: "SceneManager \<Rightarrow> error + SceneManager" where
  "DrawTorusMesh s = Inr (emit [DrawMesh Torus] s)"
definition DrawCylinderMesh :: "SceneManager \<Rightarrow> error + SceneManager" where
  "DrawCylinderMesh s = Inr (emit [DrawMesh Cylinder] s)"
definition DrawConeMesh :: "SceneManager \<Rightarrow> error + SceneManager" where
  "DrawConeMesh s = Inr (emit [DrawMesh Cone] s)"
definition DrawBoxMesh :: "SceneManager \<Rightarrow> error + SceneManager" where
  "DrawBoxMesh s = Inr (emit [DrawMesh Box] s)"

definition PrepareScene :: "(string \<Rightarrow> image option) \<Rightarrow> SceneManager \<Rightarrow> error + SceneManager" where
  "PrepareScene stbi_load =
     seq [LoadSceneTextures stbi_load,
          DefineObjectMaterials,
          SetupSceneLights,
          LoadPlaneMesh,
          LoadTaperedCylinderMesh,
          LoadTorusMesh,
          LoadCylinderMesh,
          LoadConeMesh,
          LoadBoxMesh]"

subsection \<open>The frame\<close>

text \<open>
  \<open>SceneManager::RenderScene\<close>, statement by statement; each comment is the heading of
  the block in the source.
\<close>

definition RenderScene :: "OBJECT_MATERIAL \<Rightarrow> SceneManager \<Rightarrow> error + SceneManager" where
  "RenderScene uninit =
     seq [
        \<comment> \<open>Table Plane\<close>
        SetTransformations (vec3 10 1 9) 0 0 0 (vec3 0 1 0),
        SetShaderTexture ''table'',
        SetShaderMaterial uninit ''marble'',
        DrawPlaneMesh,
        \<comment> \<open>Mug Bottom Tapered Cylinder\<close>
        SetTransformations (vec3 1 0.8 1) 180 0 0 (vec3 4 1.8 (- 1)),
        SetShaderTexture ''mug'',
        SetShaderMaterial uninit ''ceramic'',
        DrawTaperedCylinderMesh,
        \<comment> \<open>Mug Handle Torus\<close>
        SetTransformations (vec3 0.6 0.7 1) 180 0 0 (vec3 5 2.4 (- 1)),
        SetShaderTexture ''mug'',
        SetShaderMaterial uninit ''ceramic'',
        DrawTorusMesh,
        \<comment> \<open>Mug Cylinder\<close>
        SetTransformations (vec3 1 1.8 1) 180 0 0 (vec3 4 3.6 (- 1)),
        SetShaderTexture ''mug'',
        SetShaderMaterial uninit ''ceramic'',
        DrawCylinderMesh,
        \<comment> \<open>Blue Book Box\<close>
        SetTransformations (vec3 6 0.275 3.75) 0 90 0 (vec3 0 1.1 1),
        SetShaderTexture ''bluePlastic'',
        SetShaderMaterial uninit ''dullPlastic'',
        DrawBoxMesh,
        \<comment> \<open>Bottom Brown Book Box\<close>
        SetTransformations (vec3 6.4 0.6 3.75) 0 0 0 (vec3 (- 2) 1.2 (- 4.4)),
        SetShaderTexture ''brownBook'',
        SetShaderMaterial uninit ''paper'',
        DrawBoxMesh,
        \<comment> \<open>Middle Black Book Box\<close>
        SetTransformations (vec3 5.7 0.5 3.25) 0 (- 10) 0 (vec3 (- 2.2) 1.7 (- 4.4)),
        SetShaderTexture ''blackBook'',
        SetShaderMaterial uninit ''paper'',
        DrawBoxMesh,
        \<comment> \<open>Bottom Black Book Box\<close>
        SetTransformations (vec3 5.7 0.5 3.25) 0 20 0 (vec3 (- 2.2) 2.2 (- 4.4)),
        SetShaderTexture ''blackBook'',
        SetShaderMaterial uninit ''paper'',
        DrawBoxMesh,
        \<comment> \<open>Trail Mix Container Box\<close>
        SetTransformations (vec3 2 2.7 2) 0 0 0 (vec3 (- 4) 2 (- 0.5)),
        SetShaderTexture ''redPaper'',
        SetShaderMaterial uninit ''paper'',
        DrawBoxMesh,
        \<comment> \<open>Trail Mix Lid Cylinder\<close>
        SetTransformations (vec3 1.09 0.4 1.09) 0 0 0 (vec3 (- 4) 3.35 (- 0.5)),
        SetShaderTexture ''blackPlastic'',
        SetShaderMaterial uninit ''plastic'',
        DrawCylinderMesh,
        \<comment> \<open>Main Pen Cylinder\<close>
        SetTransformations (vec3 0.05 2 0.05) 90 0 64 (vec3 0.9 1.33 1),
        SetShaderTexture ''blackPlastic'',
        SetShaderMaterial uninit ''plastic'',
        DrawCylinderMesh,
        \<comment> \<open>Pen Tip Cone\<close>
        SetTransformations (vec3 0.05 0.12 0.05) 90 0 64 (vec3 (- 0.9) 1.33 1.877),
        SetShaderTexture ''blackPlastic'',
        SetShaderMaterial uninit ''plastic'',
        DrawConeMesh,
        \<comment> \<open>Pen Top Tapered Cylinder\<close>
        SetTransformations (vec3 0.05 0.09 0.05) 90 0 244 (vec3 0.9 1.33 1),
        SetShaderTexture ''blackPlastic'',
        SetShaderMaterial uninit ''plastic'',
        DrawTaperedCylinderMesh,
        \<comment> \<open>Back Left Window Plane\<close>
        SetTransformations (vec3 6 1 9) 90 0 0 (vec3 (- 20) 6 (- 17)),
        SetShaderTexture ''whitePlastic'',
        SetShaderMaterial uninit ''plastic'',
        DrawPlaneMesh,
        \<comment> \<open>Back Right Window Plane\<close>
        SetTransformations (vec3 6 1 9) 90 0 0 (vec3 20 6 (- 17)),
        DrawPlaneMesh]"

section \<open>Observations used in the statements\<close>

text \<open>The camera's front direction in the outcome of a call, if there is one.\<close>

definition front_of :: "error + ViewState \<Rightarrow> vec3 option" where
  "front_of r = (case r of Inl e \<Rightarrow> None | Inr s \<Rightarrow> map_option Front (g_pCamera s))"

text \<open>The bounds on pitch and movement speed, for a state that has a camera.\<close>

definition view_inv :: "ViewState \<Rightarrow> bool" where
  "view_inv s = (case g_pCamera s of None \<Rightarrow> False
     | Some c \<Rightarrow> - 89 \<le> pitch s \<and> pitch s \<le> 89 \<and> 0.1 \<le> MovementSpeed c \<and> MovementSpeed c \<le> 1)"

definition front_unit :: "ViewState \<Rightarrow> bool" where
  "front_unit s = (case g_pCamera s of None \<Rightarrow> False | Some c \<Rightarrow> vlength (Front c) = 1)"

text \<open>A scene state with two loaded textures, and a decoder that yields one-channel images.\<close>

definition two_textures :: SceneManager where
  "two_textures = (SceneManager_ctor True)
     \<lparr> m_textureIDs := [\<lparr> tag = ''mug'', ID = 1 \<rparr>, \<lparr> tag = ''table'', ID = 2 \<rparr>]
                         @ replicate 14 \<lparr> tag = ''/0'', ID = - 1 \<rparr>,
       m_loadedTextures := 2, glNames := 2 \<rparr>"

definition one_channel :: "string \<Rightarrow> image option" where
  "one_channel filename = Some \<lparr> width = 2, height = 2, colorChannels = 1 \<rparr>"

text \<open>The constructed scene state once the six materials are defined.\<close>

definition six_materials :: SceneManager where
  "six_materials = (SceneManager_ctor True)\<lparr> m_objectMaterials :=
              [ceramicMaterial, marbleMaterial, paperMaterial, plasticMaterial,
               dullPlasticMaterial, glassMaterial] \<rparr>"

text \<open>
  The model matrix as the specification names it: the product
  translation \<open>\<times>\<close> rotationX \<open>\<times>\<close> rotationY \<open>\<times>\<close> rotationZ \<open>\<times>\<close> scale, here
  associated to the right.
\<close>

definition model_matrix :: "vec3 \<Rightarrow> real \<Rightarrow> real \<Rightarrow> real \<Rightarrow> vec3 \<Rightarrow> mat4" where
  "model_matrix sc rx ry rz pos =
     mat_mul (glm_translate pos)
       (mat_mul (glm_rotate (radians rx) (vec3 1 0 0))
          (mat_mul (glm_rotate (radians ry) (vec3 0 1 0))
             (mat_mul (glm_rotate (radians rz) (vec3 0 0 1)) (glm_scale sc))))"

text \<open>
  The same five transformations written on a point: scaling by components, the rotations
  about the X, Y and Z axes, and a point in homogeneous coordinates.
\<close>

definition scale_pt :: "vec3 \<Rightarrow> vec3 \<Rightarrow> vec3" where
  "scale_pt sc p = vec3 (vx sc * vx p) (vy sc * vy p) (vz sc * vz p)"

definition rotX_pt :: "real \<Rightarrow> vec3 \<Rightarrow> vec3" where
  "rotX_pt a p = vec3 (vx p) (cos a * vy p - sin a * vz p) (sin a * vy p + cos a * vz p)"

definition rotY_pt :: "real \<Rightarrow> vec3 \<Rightarrow> vec3" where
  "rotY_pt a p = vec3 (cos a * vx p + sin a * vz p) (vy p) (cos a * vz p - sin a * vx p)"

definition rotZ_pt :: "real \<Rightarrow> vec3 \<Rightarrow> vec3" where
  "rotZ_pt a p = vec3 (cos a * vx p - sin a * vy p) (sin a * vx p + cos a * vy p) (vz p)"

definition point4 :: "vec3 \<Rightarrow> vec4" where
  "point4 p = vec4 (vx p) (vy p) (vz p) 1"

text \<open>
  The Object Placement of the specification: scale, rotation angles in degrees, position,
  mesh kind, texture tag and material tag.
\<close>

record placement =
  p_scale :: vec3
  p_rotX :: real
  p_rotY :: real
  p_rotZ :: real
  p_position :: vec3
  p_mesh :: mesh
  p_texture :: string
  p_material :: string

text \<open>The slot a texture tag resolves to (\<open>-1\<close> also where the scan fails).\<close>

definition resolved_slot :: "SceneManager \<Rightarrow> string \<Rightarrow> int" where
  "resolved_slot s textureTag = (case FindTextureSlot s textureTag of Inl e \<Rightarrow> - 1 | Inr n \<Rightarrow> n)"

text \<open>The five uniform fields of a material.\<close>

definition material_calls :: "OBJECT_MATERIAL \<Rightarrow> event list" where
  "material_calls material =
     [SetUniform ''material.ambientColor'' (UVec3 (ambientColor material)),
      SetUniform ''material.ambientStrength'' (UFloat (ambientStrength material)),
      SetUniform ''material.diffuseColor'' (UVec3 (diffuseColor material)),
      SetUniform ''material.specularColor'' (UVec3 (specularColor material)),
      SetUniform ''material.shininess'' (UFloat (shininess material))]"

text \<open>
  What a material tag resolves to: nothing is published while the material list is
  empty, otherwise the five fields of whatever \<open>FindMaterial\<close> hands back.
\<close>

definition resolved_material_calls :: "SceneManager \<Rightarrow> OBJECT_MATERIAL \<Rightarrow> string \<Rightarrow> event list" where
  "resolved_material_calls s uninit materialTag =
     (if m_objectMaterials s = [] then []
      else material_calls (snd (FindMaterial s materialTag uninit)))"

text \<open>
  The per-object sequence for a placement that names a texture and a material: model
  matrix, use-texture flag, texture slot, material fields, draw.
\<close>

definition placement_calls :: "SceneManager \<Rightarrow> OBJECT_MATERIAL \<Rightarrow> placement \<Rightarrow> event list" where
  "placement_calls s uninit p =
     [SetUniform ''model''
        (UMat4 (model_matrix (p_scale p) (p_rotX p) (p_rotY p) (p_rotZ p) (p_position p))),
      SetUniform ''bUseTexture'' (UInt 1),
      SetUniform ''objectTexture'' (USampler2D (resolved_slot s (p_texture p)))]
     @ resolved_material_calls s uninit (p_material p)
     @ [DrawMesh (p_mesh p)]"

text \<open>
  The fourteen objects of \<open>RenderScene\<close> that set a texture and a material, in the order
  of the source; the fifteenth (Back Right Window Plane) sets neither.
\<close>

definition textured_placements :: "placement list" where
  "textured_placements = [
      \<comment> \<open>Table Plane\<close>
      \<lparr> p_scale = vec3 10 1 9, p_rotX = 0, p_rotY = 0, p_rotZ = 0, p_position = vec3 0 1 0,
        p_mesh = Plane, p_texture = ''table'', p_material = ''marble'' \<rparr>,
      \<comment> \<open>Mug Bottom Tapered Cylinder\<close>
      \<lparr> p_scale = vec3 1 0.8 1, p_rotX = 180, p_rotY = 0, p_rotZ = 0, p_position = vec3 4 1.8 (- 1),
        p_mesh = TaperedCylinder, p_texture = ''mug'', p_material = ''ceramic'' \<rparr>,
      \<comment> \<open>Mug Handle Torus\<close>
      \<lparr> p_scale = vec3 0.6 0.7 1, p_rotX = 180, p_rotY = 0, p_rotZ = 0, p_position = vec3 5 2.4 (- 1),
        p_mesh = Torus, p_texture = ''mug'', p_material = ''ceramic'' \<rparr>,
      \<comment> \<open>Mug Cylinder\<close>
      \<lparr> p_scale = vec3 1 1.8 1, p_rotX = 180, p_rotY = 0, p_rotZ = 0, p_position = vec3 4 3.6 (- 1),
        p_mesh = Cylinder, p_texture = ''mug'', p_material = ''ceramic'' \<rparr>,
      \<comment> \<open>Blue Book Box\<close>
      \<lparr> p_scale = vec3 6 0.275 3.75, p_rotX = 0, p_rotY = 90, p_rotZ = 0, p_position = vec3 0 1.1 1,
        p_mesh = Box, p_texture = ''bluePlastic'', p_material = ''dullPlastic'' \<rparr>,
      \<comment> \<open>Bottom Brown Book Box\<close>
      \<lparr> p_scale = vec3 6.4 0.6 3.75, p_rotX = 0, p_rotY = 0, p_rotZ = 0, p_position = vec3 (- 2) 1.2 (- 4.4),
        p_mesh = Box, p_texture = ''brownBook'', p_material = ''paper'' \<rparr>,
      \<comment> \<open>Middle Black Book Box\<close>
      \<lparr> p_scale = vec3 5.7 0.5 3.25, p_rotX = 0, p_rotY = (- 10), p_rotZ = 0, p_position = vec3 (- 2.2) 1.7 (- 4.4),
        p_mesh = Box, p_texture = ''blackBook'', p_material = ''paper'' \<rparr>,
      \<comment> \<open>Bottom Black Book Box\<close>
      \<lparr> p_scale = vec3 5.7 0.5 3.25, p_rotX = 0, p_rotY = 20, p_rotZ = 0, p_position = vec3 (- 2.2) 2.2 (- 4.4),
        p_mesh = Box, p_texture = ''blackBook'', p_material = ''paper'' \<rparr>,
      \<comment> \<open>Trail Mix Container Box\<close>
      \<lparr> p_scale = vec3 2 2.7 2, p_rotX = 0, p_rotY = 0, p_rotZ = 0, p_position = vec3 (- 4) 2 (- 0.5),
        p_mesh = Box, p_texture = ''redPaper'', p_material = ''paper'' \<rparr>,
      \<comment> \<open>Trail Mix Lid Cylinder\<close>
      \<lparr> p_scale = vec3 1.09 0.4 1.09, p_rotX = 0, p_rotY = 0, p_rotZ = 0, p_position = vec3 (- 4) 3.35 (- 0.5),
        p_mesh = Cylinder, p_texture = ''blackPlastic'', p_material = ''plastic'' \<rparr>,
      \<comment> \<open>Main Pen Cylinder\<close>
      \<lparr> p_scale = vec3 0.05 2 0.05, p_rotX = 90, p_rotY = 0, p_rotZ = 64, p_position = vec3 0.9 1.33 1,
        p_mesh = Cylinder, p_texture = ''blackPlastic'', p_material = ''plastic'' \<rparr>,
      \<comment> \<open>Pen Tip Cone\<close>
      \<lparr> p_scale = vec3 0.05 0.12 0.05, p_rotX = 90, p_rotY = 0, p_rotZ = 64, p_position = vec3 (- 0.9) 1.33 1.877,
        p_mesh = Cone, p_texture = ''blackPlastic'', p_material = ''plastic'' \<rparr>,
      \<comment> \<open>Pen Top Tapered Cylinder\<close>
      \<lparr> p_scale = vec3 0.05 0.09 0.05, p_rotX = 90, p_rotY = 0, p_rotZ = 244, p_position = vec3 0.9 1.33 1,
        p_mesh = TaperedCylinder, p_texture = ''blackPlastic'', p_material = ''plastic'' \<rparr>,
      \<comment> \<open>Back Left Window Plane\<close>
      \<lparr> p_scale = vec3 6 1 9, p_rotX = 90, p_rotY = 0, p_rotZ = 0, p_position = vec3 (- 20) 6 (- 17),
        p_mesh = Plane, p_texture = ''whitePlastic'', p_material = ''plastic'' \<rparr>]"

definition back_right_window_calls :: "event list" where
  "back_right_window_calls =
     [SetUniform ''model'' (UMat4 (model_matrix (vec3 6 1 9) 90 0 0 (vec3 20 6 (- 17)))),
      DrawMesh Plane]"

text \<open>Counting the recorded calls.\<close>

fun drawn_meshes :: "event list \<Rightarrow> mesh list" where
  "drawn_meshes [] = []"
| "drawn_meshes (DrawMesh m # es) = m # drawn_meshes es"
| "drawn_meshes (e # es) = drawn_meshes es"

fun loaded_meshes :: "event list \<Rightarrow> mesh list" where
  "loaded_meshes [] = []"
| "loaded_meshes (LoadMesh m # es) = m # loaded_meshes es"
| "loaded_meshes (e # es) = loaded_meshes es"

fun uniform_names :: "event list \<Rightarrow> string list" where
  "uniform_names [] = []"
| "uniform_names (SetUniform n v # es) = n # uniform_names es"
| "uniform_names (e # es) = uniform_names es"

definition calls_of :: "error + SceneManager \<Rightarrow> event list option" where
  "calls_of r = (case r of Inl e \<Rightarrow> None | Inr s \<Rightarrow> Some (calls s))"


text \<open>The tags of the loaded texture entries, in table order.\<close>

definition texture_tags :: "SceneManager \<Rightarrow> string list" where
  "texture_tags s = map tag (take (m_loadedTextures s) (m_textureIDs s))"

text \<open>Calls that reach neither the shader manager nor the mesh provider.\<close>

definition gl_only :: "event list \<Rightarrow> bool" where
  "gl_only es = (drawn_meshes es = [] \<and> loaded_meshes es = [] \<and> uniform_names es = [])"

text \<open>The image files and tags of \<open>LoadSceneTextures\<close>, and a decoder that reads every file as RGB.\<close>

definition scene_textures :: "(string \<times> string) list" where
  "scene_textures =
     [(''ceramicTexture.jpg'', ''mug''),
      (''stoneTexture.jpg'', ''table''),
      (''blackPlasticTexture.jpg'', ''blackPlastic''),
      (''whitePlasticTexture.jpg'', ''whitePlastic''),
      (''bluePlasticTexture.jpg'', ''bluePlastic''),
      (''redPaperTexture.jpg'', ''redPaper''),
      (''blackBookTexture.jpg'', ''blackBook''),
      (''brownBookTexture.jpg'', ''brownBook'')]"

definition rgb_decoder :: "string \<Rightarrow> image option" where
  "rgb_decoder filename = Some \<lparr> width = 1024, height = 1024, colorChannels = 3 \<rparr>"

text \<open>The names of the six uniforms of each of the four lights, then the lighting switch.\<close>

definition light_uniform_names :: "string list" where
  "light_uniform_names =
     concat (map (\<lambda>light. map (\<lambda>field. light @ field)
                    [''.position'', ''.ambientColor'', ''.diffuseColor'', ''.specularColor'',
                     ''.focalStrength'', ''.specularIntensity''])
                 [''lightSources[0]'', ''lightSources[1]'', ''lightSources[2]'', ''lightSources[3]''])
     @ [''bUseLighting'']"

text \<open>The meshes of the fifteen draw calls of a frame, in order.\<close>

definition frame_meshes :: "mesh list" where
  "frame_meshes = [Plane, TaperedCylinder, Torus, Cylinder, Box, Box, Box, Box, Box,
                   Cylinder, Cylinder, Cone, TaperedCylinder, Plane, Plane]"

section \<open>The View Controller\<close>

subsection \<open>The direction computed from yaw and pitch\<close>

lemma direction_unit: "dot (direction yw pt) (direction yw pt) = 1"
proof -
  define a where "a = cos (radians yw)"
  define b where "b = sin (radians yw)"
  define p where "p = cos (radians pt)"
  define q where "q = sin (radians pt)"
  have ab: "a * a + b * b = 1" and pq: "p * p + q * q = 1"
    using sin_cos_squared_add2 [of "radians yw"] sin_cos_squared_add2 [of "radians pt"]
    by (simp_all add: a_def b_def p_def q_def power2_eq_square)
  have "(a * p) * (a * p) + q * q + (b * p) * (b * p) = (a * a + b * b) * (p * p) + q * q"
    by (simp add: algebra_simps)
  also have "\<dots> = 1" using ab pq by simp
  finally show ?thesis
    by (simp add: dot_def direction_def a_def b_def p_def q_def)
qed

lemma normalize_direction: "normalize (direction yw pt) = direction yw pt"
  by (simp add: normalize_def direction_unit smul_def)

lemma vlength_direction: "vlength (direction yw pt) = 1"
  by (simp add: vlength_def direction_unit)

subsection \<open>One call of each operation, on a state with a camera\<close>

lemma Mouse_Position_Callback_Some:
  assumes "g_pCamera s = Some c"
  shows "\<exists>s'. Mouse_Position_Callback x y s = Inr s'
           \<and> g_pCamera s' = Some (c\<lparr> Front := direction (yaw s') (pitch s') \<rparr>)
           \<and> - 89 \<le> pitch s' \<and> pitch s' \<le> 89
           \<and> bOrthographicProjection s' = bOrthographicProjection s"
  using assms by (simp add: Mouse_Position_Callback_def Let_def normalize_direction)

lemma scrollCallback_Some:
  assumes "g_pCamera s = Some c"
  shows "\<exists>s' c'. scrollCallback x y s = Inr s' \<and> g_pCamera s' = Some c'
           \<and> 0.1 \<le> MovementSpeed c' \<and> MovementSpeed c' \<le> 1
           \<and> Front c' = Front c \<and> pitch s' = pitch s"
  using assms by (simp add: scrollCallback_def Let_def)

lemma move_camera_keeps:
  "Front (move_camera pressed c) = Front c"
  "MovementSpeed (move_camera pressed c) = MovementSpeed c"
  by (simp_all add: move_camera_def Let_def)

lemma ProcessKeyboardEvents_Some:
  assumes "g_pCamera s = Some c"
  shows "g_pCamera (ProcessKeyboardEvents pressed s) = Some (move_camera pressed c)
         \<and> pitch (ProcessKeyboardEvents pressed s) = pitch s"
  using assms by (simp add: ProcessKeyboardEvents_def Let_def)

subsection \<open>Invariants along a run\<close>

lemma view_inv_init: "view_inv (ViewManager globals_init)"
  by (simp add: view_inv_def ViewManager_def globals_init_def ctor_camera_def)

lemma step_view_inv:
  assumes "view_inv s"
  shows "\<exists>s'. step i s = Inr s' \<and> view_inv s'"
proof -
  from assms obtain c where c: "g_pCamera s = Some c"
    and b: "- 89 \<le> pitch s" "pitch s \<le> 89" "0.1 \<le> MovementSpeed c" "MovementSpeed c \<le> 1"
    by (auto simp: view_inv_def split: option.splits)
  show ?thesis
  proof (cases i)
    case (CursorPos x y)
    from Mouse_Position_Callback_Some [OF c, of x y] b show ?thesis
      by (auto simp: CursorPos view_inv_def)
  next
    case (Scroll x y)
    from scrollCallback_Some [OF c, of x y] b show ?thesis
      by (auto simp: Scroll view_inv_def)
  next
    case (Poll pressed)
    from ProcessKeyboardEvents_Some [OF c, of pressed] b show ?thesis
      by (simp add: Poll view_inv_def move_camera_keeps)
  qed
qed

lemma run_view_inv:
  "view_inv s \<Longrightarrow> \<exists>s'. run ins s = Inr s' \<and> view_inv s'"
proof (induction ins arbitrary: s)
  case Nil
  then show ?case by simp
next
  case (Cons i ins)
  from step_view_inv [OF Cons.prems, of i] obtain s1 where "step i s = Inr s1" "view_inv s1"
    by blast
  with Cons.IH [of s1] show ?case by simp
qed

lemma run_append:
  "run (xs @ ys) s = (case run xs s of Inl e \<Rightarrow> Inl e | Inr s' \<Rightarrow> run ys s')"
  by (induction xs arbitrary: s) (auto split: sum.splits)

lemma step_front_unit:
  assumes "front_unit s"
  shows "\<exists>s'. step i s = Inr s' \<and> front_unit s'"
proof -
  from assms obtain c where c: "g_pCamera s = Some c" and u: "vlength (Front c) = 1"
    by (auto simp: front_unit_def split: option.splits)
  show ?thesis
  proof (cases i)
    case (CursorPos x y)
    from Mouse_Position_Callback_Some [OF c, of x y] show ?thesis
      by (auto simp: CursorPos front_unit_def vlength_direction)
  next
    case (Scroll x y)
    from scrollCallback_Some [OF c, of x y] u show ?thesis
      by (auto simp: Scroll front_unit_def)
  next
    case (Poll pressed)
    from ProcessKeyboardEvents_Some [OF c, of pressed] u show ?thesis
      by (simp add: Poll front_unit_def move_camera_keeps)
  qed
qed

lemma run_front_unit:
  "front_unit s \<Longrightarrow> \<exists>s'. run ins s = Inr s' \<and> front_unit s'"
proof (induction ins arbitrary: s)
  case Nil
  then show ?case by simp
next
  case (Cons i ins)
  from step_front_unit [OF Cons.prems, of i] obtain s1 where "step i s = Inr s1" "front_unit s1"
    by blast
  with Cons.IH [of s1] show ?case by simp
qed

subsection \<open>Pitch and movement speed\<close>

text \<open>
  Claim C7.  Starting from the state the constructor leaves, after every finite sequence
  of cursor positions, scroll offsets and keyboard polls, delivered in any order, the run
  has not failed, the pitch lies in \<open>[-89, 89]\<close> and the camera's movement speed lies in
  \<open>[0.1, 1.0]\<close>.
\<close>

theorem pitch_and_speed_bounded:
  "\<exists>s' c. run ins (ViewManager globals_init) = Inr s' \<and> g_pCamera s' = Some c
      \<and> - 89 \<le> pitch s' \<and> pitch s' \<le> 89
      \<and> 0.1 \<le> MovementSpeed c \<and> MovementSpeed c \<le> 1.0"
  using run_view_inv [OF view_inv_init, of ins]
  by (auto simp: view_inv_def split: option.splits)

subsection \<open>The front direction\<close>

text \<open>
  Claim C5, as the code has it.  Once a cursor callback has run, the camera's front
  direction has length 1, and it keeps that length through every later cursor position,
  scroll offset and keyboard poll.
\<close>

theorem front_unit_after_cursor_callback:
  "\<exists>s' c. run (before @ CursorPos x y # after) (ViewManager globals_init) = Inr s'
      \<and> g_pCamera s' = Some c \<and> vlength (Front c) = 1"
proof -
  from run_view_inv [OF view_inv_init, of before]
  obtain s1 c1 where r1: "run before (ViewManager globals_init) = Inr s1"
    and c1: "g_pCamera s1 = Some c1"
    by (auto simp: view_inv_def split: option.splits)
  from Mouse_Position_Callback_Some [OF c1, of x y]
  obtain s2 where r2: "Mouse_Position_Callback x y s1 = Inr s2" and u2: "front_unit s2"
    by (auto simp: front_unit_def vlength_direction)
  from run_front_unit [OF u2, of after]
  obtain s3 where r3: "run after s2 = Inr s3" and u3: "front_unit s3"
    by blast
  from r1 r2 r3 have "run (before @ CursorPos x y # after) (ViewManager globals_init) = Inr s3"
    by (simp add: run_append)
  with u3 show ?thesis
    by (auto simp: front_unit_def split: option.splits)
qed

text \<open>
  Claim C5 as stated fails immediately after construction: the constructor stores the
  front direction \<open>(0, -0.5, -2)\<close>, whose squared length is \<open>17/4\<close>.
\<close>

theorem front_not_unit_after_construction:
  "g_pCamera (ViewManager globals_init) = Some ctor_camera
   \<and> dot (Front ctor_camera) (Front ctor_camera) = 17 / 4
   \<and> vlength (Front ctor_camera) \<noteq> 1"
proof -
  have d: "dot (Front ctor_camera) (Front ctor_camera) = 17 / 4"
    by (simp add: ctor_camera_def dot_def)
  have "sqrt (17 / 4) \<noteq> 1"
    by simp
  with d show ?thesis
    by (simp add: ViewManager_def vlength_def)
qed

subsection \<open>The first cursor callback\<close>

text \<open>
  Claim C2, as the code has it.  In every state whose first-mouse flag is set and that
  has a camera, and for every cursor position, the callback succeeds, stores the position
  as the last cursor position, clears the flag and leaves yaw unchanged; pitch is only
  clamped into \<open>[-89, 89]\<close>.  It then overwrites the front direction with the unit
  direction of that yaw and pitch, whatever the front direction was before.
\<close>

theorem first_cursor_callback:
  assumes "gFirstMouse s" and "g_pCamera s = Some c"
  shows "\<exists>s'. Mouse_Position_Callback x y s = Inr s'
           \<and> gLastX s' = x \<and> gLastY s' = y \<and> \<not> gFirstMouse s'
           \<and> yaw s' = yaw s
           \<and> pitch s' = (if pitch s > 89 then 89 else if pitch s < - 89 then - 89 else pitch s)
           \<and> g_pCamera s' = Some (c\<lparr> Front := direction (yaw s') (pitch s') \<rparr>)
           \<and> vlength (direction (yaw s') (pitch s')) = 1"
  using assms
  by (simp add: Mouse_Position_Callback_def Let_def normalize_direction vlength_direction)

theorem first_cursor_callback_witness:
  "gFirstMouse (ViewManager globals_init) \<and> g_pCamera (ViewManager globals_init) = Some ctor_camera
   \<and> (\<exists>s'. Mouse_Position_Callback 500 400 (ViewManager globals_init) = Inr s'
           \<and> gLastX s' = 500 \<and> gLastY s' = 400 \<and> \<not> gFirstMouse s'
           \<and> yaw s' = - 89 \<and> pitch s' = 0
           \<and> g_pCamera s' = Some (ctor_camera\<lparr> Front := direction (- 89) 0 \<rparr>))"
proof -
  have a: "gFirstMouse (ViewManager globals_init)"
    and b: "g_pCamera (ViewManager globals_init) = Some ctor_camera"
    by (simp_all add: ViewManager_def globals_init_def)
  from first_cursor_callback [OF a b, of 500 400] a b show ?thesis
    by (auto simp: ViewManager_def globals_init_def)
qed

text \<open>
  Claim C2 as stated fails on the first callback after construction, at the cursor
  position \<open>(500, 400)\<close>: the front direction \<open>(0, -0.5, -2)\<close> is replaced by the
  direction of yaw \<open>-89\<close> and pitch \<open>0\<close>, whose second component is \<open>0\<close>.
\<close>

theorem first_cursor_callback_changes_front:
  "front_of (Mouse_Position_Callback 500 400 (ViewManager globals_init))
     = Some (vec3 (cos (radians (- 89))) 0 (sin (radians (- 89))))
   \<and> front_of (Inr (ViewManager globals_init)) = Some (vec3 0 (- 0.5) (- 2))
   \<and> front_of (Mouse_Position_Callback 500 400 (ViewManager globals_init))
     \<noteq> front_of (Inr (ViewManager globals_init))"
proof -
  have a: "front_of (Mouse_Position_Callback 500 400 (ViewManager globals_init))
             = Some (direction (- 89) 0)"
    by (simp add: front_of_def Mouse_Position_Callback_def Let_def ViewManager_def
          globals_init_def normalize_direction)
  have b: "front_of (Inr (ViewManager globals_init)) = Some (vec3 0 (- 0.5) (- 2))"
    by (simp add: front_of_def ViewManager_def globals_init_def ctor_camera_def)
  have c: "direction (- 89) 0 = vec3 (cos (radians (- 89))) 0 (sin (radians (- 89)))"
    by (simp add: direction_def radians_def)
  show ?thesis
    unfolding a b c by simp
qed

subsection \<open>Projection keys\<close>

text \<open>
  Claim C10.  In every state reached from construction by any sequence of inputs, a call
  of \<open>ProcessKeyboardEvents\<close> during which both P and O are reported as pressed leaves
  the orthographic flag set.
\<close>

theorem both_keys_orthographic:
  assumes "pressed KEY_P" and "pressed KEY_O"
  shows "\<exists>s. run ins (ViewManager globals_init) = Inr s
           \<and> bOrthographicProjection (ProcessKeyboardEvents pressed s)"
proof -
  from run_view_inv [OF view_inv_init, of ins]
  obtain s c where r: "run ins (ViewManager globals_init) = Inr s" and c: "g_pCamera s = Some c"
    by (auto simp: view_inv_def split: option.splits)
  from c assms have "bOrthographicProjection (ProcessKeyboardEvents pressed s)"
    by (simp add: ProcessKeyboardEvents_def Let_def)
  with r show ?thesis by blast
qed

theorem both_keys_orthographic_witness:
  "(\<lambda>k. k = KEY_P \<or> k = KEY_O) KEY_P \<and> (\<lambda>k. k = KEY_P \<or> k = KEY_O) KEY_O
   \<and> (\<exists>s. run [Poll (\<lambda>k. k = KEY_P)] (ViewManager globals_init) = Inr s
         \<and> bOrthographicProjection (ProcessKeyboardEvents (\<lambda>k. k = KEY_P \<or> k = KEY_O) s))"
  using both_keys_orthographic [of "\<lambda>k. k = KEY_P \<or> k = KEY_O" "[Poll (\<lambda>k. k = KEY_P)]"]
  by simp

section \<open>The Scene Composer\<close>

subsection \<open>Recorded calls and the texture table\<close>

declare FindTextureSlot_loop.simps [simp del]
declare FindMaterial_loop.simps [simp del]
declare BindGLTextures_loop.simps [simp del]

lemma emit_fields [simp]:
  "m_pShaderManager (emit es s) = m_pShaderManager s"
  "m_textureIDs (emit es s) = m_textureIDs s"
  "m_loadedTextures (emit es s) = m_loadedTextures s"
  "m_objectMaterials (emit es s) = m_objectMaterials s"
  "glNames (emit es s) = glNames s"
  "calls (emit es s) = calls s @ es"
  by (simp_all add: emit_def)

lemma emit_emit [simp]: "emit es (emit es' s) = emit (es' @ es) s"
  by (simp add: emit_def)

lemma FindTextureSlot_loop_table:
  assumes "m_textureIDs s' = m_textureIDs s" and "m_loadedTextures s' = m_loadedTextures s"
  shows "FindTextureSlot_loop s' tg slot i b = FindTextureSlot_loop s tg slot i b"
proof (induction "2 * (m_loadedTextures s - i) + (if b then 0 else 1)" arbitrary: slot i b
         rule: less_induct)
  case less
  show ?case
  proof (cases "i < m_loadedTextures s \<and> b = False \<and> i < length (m_textureIDs s)")
    case False
    then show ?thesis
      using assms
      by (subst FindTextureSlot_loop.simps, subst (2) FindTextureSlot_loop.simps) auto
  next
    case True
    have a: "FindTextureSlot_loop s' tg (int i) i True = FindTextureSlot_loop s tg (int i) i True"
      using True by (intro less) simp
    have b: "FindTextureSlot_loop s' tg slot (i + 1) False = FindTextureSlot_loop s tg slot (i + 1) False"
      using True by (intro less) auto
    show ?thesis
      using assms True a b
      by (subst FindTextureSlot_loop.simps, subst (2) FindTextureSlot_loop.simps) simp
  qed
qed

lemma FindTextureSlot_table:
  "m_textureIDs s' = m_textureIDs s \<Longrightarrow> m_loadedTextures s' = m_loadedTextures s
   \<Longrightarrow> FindTextureSlot s' tg = FindTextureSlot s tg"
  unfolding FindTextureSlot_def by (rule FindTextureSlot_loop_table)


lemma FindTextureSlot_loop_found:
  assumes "k \<le> i" and "i < m_loadedTextures s"
    and "m_loadedTextures s \<le> length (m_textureIDs s)"
    and "tag (m_textureIDs s ! i) = tg"
    and "\<forall>j. k \<le> j \<and> j < i \<longrightarrow> tag (m_textureIDs s ! j) \<noteq> tg"
  shows "FindTextureSlot_loop s tg slot k False = Inr (int i)"
  using assms
proof (induction "i - k" arbitrary: k slot)
  case 0
  then have "k = i" by simp
  with 0 show ?case
    by (simp add: FindTextureSlot_loop.simps [of s tg _ i])
next
  case (Suc n)
  then have lt: "k < i" and ne: "tag (m_textureIDs s ! k) \<noteq> tg" by auto
  have "FindTextureSlot_loop s tg slot (k + 1) False = Inr (int i)"
    using Suc.prems Suc.hyps(2) lt by (intro Suc.hyps(1)) auto
  with lt ne Suc.prems show ?case
    by (simp add: FindTextureSlot_loop.simps [of s tg slot k])
qed

lemma FindTextureSlot_loop_absent:
  assumes "m_loadedTextures s \<le> length (m_textureIDs s)"
    and "\<forall>j. k \<le> j \<and> j < m_loadedTextures s \<longrightarrow> tag (m_textureIDs s ! j) \<noteq> tg"
  shows "FindTextureSlot_loop s tg slot k False = Inr slot"
  using assms
proof (induction "m_loadedTextures s - k" arbitrary: k)
  case 0
  then show ?case
    by (simp add: FindTextureSlot_loop.simps [of s tg slot k])
next
  case (Suc n)
  then have lt: "k < m_loadedTextures s" and ne: "tag (m_textureIDs s ! k) \<noteq> tg" by auto
  have "FindTextureSlot_loop s tg slot (k + 1) False = Inr slot"
    using Suc.prems Suc.hyps(2) by (intro Suc.hyps(1)) auto
  with lt ne Suc.prems show ?case
    by (simp add: FindTextureSlot_loop.simps [of s tg slot k])
qed

lemma FindTextureSlot_Inr:
  assumes "m_loadedTextures s \<le> length (m_textureIDs s)"
  shows "\<exists>n. FindTextureSlot s tg = Inr n"
proof (cases "\<exists>i<m_loadedTextures s. tag (m_textureIDs s ! i) = tg")
  case True
  define i where "i = (LEAST i. i < m_loadedTextures s \<and> tag (m_textureIDs s ! i) = tg)"
  from True obtain i0 where "i0 < m_loadedTextures s \<and> tag (m_textureIDs s ! i0) = tg"
    by blast
  then have p: "i < m_loadedTextures s \<and> tag (m_textureIDs s ! i) = tg"
    unfolding i_def by (rule LeastI)
  have "\<forall>j. 0 \<le> j \<and> j < i \<longrightarrow> tag (m_textureIDs s ! j) \<noteq> tg"
  proof (intro allI impI)
    fix j assume j: "0 \<le> j \<and> j < i"
    show "tag (m_textureIDs s ! j) \<noteq> tg"
    proof
      assume "tag (m_textureIDs s ! j) = tg"
      with j p have "j < m_loadedTextures s \<and> tag (m_textureIDs s ! j) = tg" by simp
      then have "i \<le> j" unfolding i_def by (rule Least_le)
      with j show False by simp
    qed
  qed
  with p assms have "FindTextureSlot_loop s tg (- 1) 0 False = Inr (int i)"
    by (intro FindTextureSlot_loop_found) auto
  then show ?thesis by (auto simp: FindTextureSlot_def)
next
  case False
  with assms have "FindTextureSlot_loop s tg (- 1) 0 False = Inr (- 1)"
    by (intro FindTextureSlot_loop_absent) auto
  then show ?thesis by (auto simp: FindTextureSlot_def)
qed

text \<open>
  Claim C9.  On a state whose loaded-texture count does not exceed the 16 entries of the
  table, \<open>FindTextureSlot\<close> returns the index of the first loaded entry whose tag equals
  the given tag, and \<open>-1\<close> when no loaded entry has that tag; in the latter case
  \<open>SetShaderTexture\<close> (with a shader manager) sets the use-texture flag and publishes
  \<open>-1\<close> as the texture-slot uniform.
\<close>

theorem FindTextureSlot_first_match:
  assumes "m_loadedTextures s \<le> length (m_textureIDs s)"
  shows "(\<forall>i. i < m_loadedTextures s \<and> tag (m_textureIDs s ! i) = tg
              \<and> (\<forall>j<i. tag (m_textureIDs s ! j) \<noteq> tg)
            \<longrightarrow> FindTextureSlot s tg = Inr (int i))
       \<and> ((\<forall>i<m_loadedTextures s. tag (m_textureIDs s ! i) \<noteq> tg)
            \<longrightarrow> FindTextureSlot s tg = Inr (- 1)
              \<and> (m_pShaderManager s
                   \<longrightarrow> SetShaderTexture tg s
                       = Inr (emit [SetUniform ''bUseTexture'' (UInt 1),
                                    SetUniform ''objectTexture'' (USampler2D (- 1))] s)))"
proof (intro conjI allI impI)
  fix i
  assume "i < m_loadedTextures s \<and> tag (m_textureIDs s ! i) = tg
            \<and> (\<forall>j<i. tag (m_textureIDs s ! j) \<noteq> tg)"
  with assms show "FindTextureSlot s tg = Inr (int i)"
    unfolding FindTextureSlot_def by (intro FindTextureSlot_loop_found) auto
next
  assume a: "\<forall>i<m_loadedTextures s. tag (m_textureIDs s ! i) \<noteq> tg"
  with assms show f: "FindTextureSlot s tg = Inr (- 1)"
    unfolding FindTextureSlot_def by (intro FindTextureSlot_loop_absent) auto
  assume "m_pShaderManager s"
  with f show "SetShaderTexture tg s
                 = Inr (emit [SetUniform ''bUseTexture'' (UInt 1),
                              SetUniform ''objectTexture'' (USampler2D (- 1))] s)"
    by (simp add: SetShaderTexture_def Let_def
          FindTextureSlot_table [of "emit [SetUniform ''bUseTexture'' (UInt 1)] s" s])
qed

lemma two_textures_fields:
  "m_loadedTextures two_textures = 2"
  "length (m_textureIDs two_textures) = 16"
  "m_textureIDs two_textures ! 0 = \<lparr> tag = ''mug'', ID = 1 \<rparr>"
  "m_textureIDs two_textures ! 1 = \<lparr> tag = ''table'', ID = 2 \<rparr>"
  "m_textureIDs two_textures ! Suc 0 = \<lparr> tag = ''table'', ID = 2 \<rparr>"
  "m_pShaderManager two_textures"
  by (simp_all add: two_textures_def SceneManager_ctor_def)

theorem FindTextureSlot_first_match_witness:
  "m_loadedTextures two_textures \<le> length (m_textureIDs two_textures)
   \<and> FindTextureSlot two_textures ''mug'' = Inr 0
   \<and> FindTextureSlot two_textures ''table'' = Inr 1
   \<and> FindTextureSlot two_textures ''wood'' = Inr (- 1)
   \<and> SetShaderTexture ''wood'' two_textures
       = Inr (emit [SetUniform ''bUseTexture'' (UInt 1),
                    SetUniform ''objectTexture'' (USampler2D (- 1))] two_textures)"
proof -
  have wf: "m_loadedTextures two_textures \<le> length (m_textureIDs two_textures)"
    by (simp add: two_textures_fields)
  have two: "\<And>P. (\<forall>i<2::nat. P i) = (P 0 \<and> P 1)"
    by (auto simp: numeral_2_eq_2 less_Suc_eq)
  from FindTextureSlot_first_match [OF wf, of "''mug''", THEN conjunct1, THEN spec, of 0]
  have a: "FindTextureSlot two_textures ''mug'' = Inr 0"
    by (simp add: two_textures_fields)
  from FindTextureSlot_first_match [OF wf, of "''table''", THEN conjunct1, THEN spec, of 1]
  have b: "FindTextureSlot two_textures ''table'' = Inr 1"
    by (simp add: two_textures_fields)
  from FindTextureSlot_first_match [OF wf, of "''wood''"]
  have c: "FindTextureSlot two_textures ''wood'' = Inr (- 1)
      \<and> SetShaderTexture ''wood'' two_textures
       = Inr (emit [SetUniform ''bUseTexture'' (UInt 1),
                    SetUniform ''objectTexture'' (USampler2D (- 1))] two_textures)"
    by (simp add: two_textures_fields two)
  from wf a b c show ?thesis by simp
qed

subsection \<open>Registering a texture\<close>

text \<open>
  Claim C8.  When the decoder delivers an image whose channel count is neither 3 nor 4,
  \<open>CreateGLTexture\<close> returns \<open>false\<close> and leaves the texture table and the loaded
  count as they were, so every lookup answers as before the call; a tag that no loaded
  entry carried before the call is carried by none afterwards, and its lookup returns the
  not-found value \<open>-1\<close>.
\<close>

theorem CreateGLTexture_unsupported_channels:
  assumes "stbi_load filename = Some img"
    and "colorChannels img \<noteq> 3" and "colorChannels img \<noteq> 4"
  shows "\<exists>s'. CreateGLTexture stbi_load filename tg s = Inr (False, s')
           \<and> m_textureIDs s' = m_textureIDs s
           \<and> m_loadedTextures s' = m_loadedTextures s
           \<and> FindTextureSlot s' tg = FindTextureSlot s tg
           \<and> (m_loadedTextures s \<le> length (m_textureIDs s)
                \<and> (\<forall>i<m_loadedTextures s. tag (m_textureIDs s ! i) \<noteq> tg)
               \<longrightarrow> (\<forall>i<m_loadedTextures s'. tag (m_textureIDs s' ! i) \<noteq> tg)
                  \<and> FindTextureSlot s' tg = Inr (- 1))"
proof -
  define s' where "s' = emit [GenTextures (word_of_nat (glNames s + 1)),
                         BindTexture (word_of_nat (glNames s + 1)),
                         TexParameteri ''GL_TEXTURE_WRAP_S'' ''GL_REPEAT'',
                         TexParameteri ''GL_TEXTURE_WRAP_T'' ''GL_REPEAT'',
                         TexParameteri ''GL_TEXTURE_MIN_FILTER'' ''GL_LINEAR'',
                         TexParameteri ''GL_TEXTURE_MAG_FILTER'' ''GL_LINEAR'']
                        (s\<lparr> glNames := glNames s + 1 \<rparr>)"
  have r: "CreateGLTexture stbi_load filename tg s = Inr (False, s')"
    using assms by (simp add: CreateGLTexture_def Let_def s'_def)
  have t: "m_textureIDs s' = m_textureIDs s" "m_loadedTextures s' = m_loadedTextures s"
    by (simp_all add: s'_def)
  have f: "FindTextureSlot s' tg = FindTextureSlot s tg"
    using t by (rule FindTextureSlot_table)
  have "FindTextureSlot s tg = Inr (- 1)"
    if "m_loadedTextures s \<le> length (m_textureIDs s)"
      and "\<forall>i<m_loadedTextures s. tag (m_textureIDs s ! i) \<noteq> tg"
    unfolding FindTextureSlot_def using that by (intro FindTextureSlot_loop_absent) auto
  with r t f show ?thesis by simp
qed

theorem CreateGLTexture_unsupported_channels_witness:
  "one_channel ''ceramicTexture.jpg'' = Some \<lparr> width = 2, height = 2, colorChannels = 1 \<rparr>
   \<and> colorChannels \<lparr> width = 2, height = 2, colorChannels = 1 \<rparr> \<noteq> 3
   \<and> colorChannels \<lparr> width = 2, height = 2, colorChannels = 1 \<rparr> \<noteq> 4
   \<and> (\<exists>s'. CreateGLTexture one_channel ''ceramicTexture.jpg'' ''mug'' (SceneManager_ctor True)
               = Inr (False, s')
          \<and> m_textureIDs s' = m_textureIDs (SceneManager_ctor True)
          \<and> m_loadedTextures s' = 0
          \<and> FindTextureSlot s' ''mug'' = Inr (- 1))"
proof -
  have a: "one_channel ''ceramicTexture.jpg'' = Some \<lparr> width = 2, height = 2, colorChannels = 1 \<rparr>"
    by (simp add: one_channel_def)
  have b: "colorChannels \<lparr> width = 2, height = 2, colorChannels = 1 \<rparr> \<noteq> 3"
    and c: "colorChannels \<lparr> width = 2, height = 2, colorChannels = 1 \<rparr> \<noteq> 4"
    by simp_all
  from CreateGLTexture_unsupported_channels
         [of one_channel "''ceramicTexture.jpg''" "\<lparr> width = 2, height = 2, colorChannels = 1 \<rparr>"
             "''mug''" "SceneManager_ctor True", OF a b c] a
  show ?thesis
    by (auto simp: SceneManager_ctor_def)
qed

subsection \<open>Materials\<close>

lemma FindMaterial_loop_absent:
  assumes "\<forall>m\<in>set ms. mtag m \<noteq> tg"
  shows "FindMaterial_loop ms tg material k False = material"
  using assms
proof (induction "length ms - k" arbitrary: k)
  case 0
  then show ?case
    by (simp add: FindMaterial_loop.simps [of ms tg material k])
next
  case (Suc n)
  then have lt: "k < length ms" by simp
  then have ne: "mtag (ms ! k) \<noteq> tg" using Suc.prems by simp
  have "FindMaterial_loop ms tg material (k + 1) False = material"
    using Suc.prems Suc.hyps(2) by (intro Suc.hyps(1)) auto
  with lt ne show ?case
    by (simp add: FindMaterial_loop.simps [of ms tg material k])
qed

lemma DefineObjectMaterials_ctor:
  "DefineObjectMaterials (SceneManager_ctor b)
     = Inr ((SceneManager_ctor b)\<lparr> m_objectMaterials :=
              [ceramicMaterial, marbleMaterial, paperMaterial, plasticMaterial,
               dullPlasticMaterial, glassMaterial] \<rparr>)"
  by (simp add: DefineObjectMaterials_def push_back_def SceneManager_ctor_def)

text \<open>
  Claim C1, evaluated on the code.  With the six materials of \<open>DefineObjectMaterials\<close>
  in the list, \<open>FindMaterial\<close> answers \<open>true\<close> for the tag \<open>wood\<close>, which no
  material carries, and hands back the caller's material untouched; \<open>SetShaderMaterial\<close>
  then publishes the five material uniforms from its uninitialised local.
\<close>

theorem FindMaterial_unknown_tag_reports_found:
  "DefineObjectMaterials (SceneManager_ctor True) = Inr six_materials
   \<and> FindMaterial six_materials ''wood'' uninit = (True, uninit)
   \<and> SetShaderMaterial uninit ''wood'' six_materials
       = Inr (emit [SetUniform ''material.ambientColor'' (UVec3 (ambientColor uninit)),
                    SetUniform ''material.ambientStrength'' (UFloat (ambientStrength uninit)),
                    SetUniform ''material.diffuseColor'' (UVec3 (diffuseColor uninit)),
                    SetUniform ''material.specularColor'' (UVec3 (specularColor uninit)),
                    SetUniform ''material.shininess'' (UFloat (shininess uninit))]
               six_materials)"
proof -
  have d: "DefineObjectMaterials (SceneManager_ctor True) = Inr six_materials"
    by (simp add: DefineObjectMaterials_ctor six_materials_def)
  have ms: "m_objectMaterials six_materials =
              [ceramicMaterial, marbleMaterial, paperMaterial, plasticMaterial,
               dullPlasticMaterial, glassMaterial]"
    and sh: "m_pShaderManager six_materials"
    by (simp_all add: six_materials_def SceneManager_ctor_def)
  have "\<forall>m\<in>set (m_objectMaterials six_materials). mtag m \<noteq> ''wood''"
    by (simp add: ms ceramicMaterial_def marbleMaterial_def paperMaterial_def
          plasticMaterial_def dullPlasticMaterial_def glassMaterial_def)
  then have l: "FindMaterial_loop (m_objectMaterials six_materials) ''wood'' uninit 0 False = uninit"
    by (rule FindMaterial_loop_absent)
  have f: "FindMaterial six_materials ''wood'' uninit = (True, uninit)"
    unfolding FindMaterial_def l by (simp add: ms)
  have "SetShaderMaterial uninit ''wood'' six_materials
       = Inr (emit [SetUniform ''material.ambientColor'' (UVec3 (ambientColor uninit)),
                    SetUniform ''material.ambientStrength'' (UFloat (ambientStrength uninit)),
                    SetUniform ''material.diffuseColor'' (UVec3 (diffuseColor uninit)),
                    SetUniform ''material.specularColor'' (UVec3 (specularColor uninit)),
                    SetUniform ''material.shininess'' (UFloat (shininess uninit))]
               six_materials)"
    unfolding SetShaderMaterial_def f using sh by (simp add: ms)
  with d f show ?thesis by simp
qed

subsection \<open>The model matrix\<close>

lemma mat_vec_mat_mul: "mat_vec (mat_mul a b) v = mat_vec a (mat_vec b v)"
proof -
  obtain a0 a1 a2 a3 where a: "a = mat4 a0 a1 a2 a3" by (cases a)
  obtain b0 b1 b2 b3 where b: "b = mat4 b0 b1 b2 b3" by (cases b)
  show ?thesis
    unfolding a b
    by (cases v; cases a0; cases a1; cases a2; cases a3; cases b0; cases b1; cases b2; cases b3)
       (simp add: mat_vec_def mat_mul_def vadd4_def vscale4_def algebra_simps)
qed

lemma mat_mul_assoc: "mat_mul (mat_mul a b) c = mat_mul a (mat_mul b c)"
proof -
  have "mat_mul (mat_mul a b) c
          = mat4 (mat_vec a (mat_vec b (col0 c))) (mat_vec a (mat_vec b (col1 c)))
                 (mat_vec a (mat_vec b (col2 c))) (mat_vec a (mat_vec b (col3 c)))"
    by (simp add: mat_mul_def [of "mat_mul a b" c] mat_vec_mat_mul)
  also have "\<dots> = mat_mul a (mat_mul b c)"
    by (simp add: mat_mul_def)
  finally show ?thesis .
qed

lemma glm_rotate_X:
  "glm_rotate a (vec3 1 0 0) = mat4 (vec4 1 0 0 0) (vec4 0 (cos a) (sin a) 0)
                                    (vec4 0 (- sin a) (cos a) 0) (vec4 0 0 0 1)"
  by (simp add: glm_rotate_def Let_def normalize_def dot_def smul_def)

lemma glm_rotate_Y:
  "glm_rotate a (vec3 0 1 0) = mat4 (vec4 (cos a) 0 (- sin a) 0) (vec4 0 1 0 0)
                                    (vec4 (sin a) 0 (cos a) 0) (vec4 0 0 0 1)"
  by (simp add: glm_rotate_def Let_def normalize_def dot_def smul_def)

lemma glm_rotate_Z:
  "glm_rotate a (vec3 0 0 1) = mat4 (vec4 (cos a) (sin a) 0 0) (vec4 (- sin a) (cos a) 0 0)
                                    (vec4 0 0 1 0) (vec4 0 0 0 1)"
  by (simp add: glm_rotate_def Let_def normalize_def dot_def smul_def)

lemma mat_vec_scale: "mat_vec (glm_scale sc) (point4 p) = point4 (scale_pt sc p)"
  by (simp add: mat_vec_def glm_scale_def point4_def scale_pt_def vadd4_def vscale4_def mult.commute)

lemma mat_vec_rotX: "mat_vec (glm_rotate a (vec3 1 0 0)) (point4 p) = point4 (rotX_pt a p)"
  by (simp add: glm_rotate_X mat_vec_def point4_def rotX_pt_def vadd4_def vscale4_def mult.commute)

lemma mat_vec_rotY: "mat_vec (glm_rotate a (vec3 0 1 0)) (point4 p) = point4 (rotY_pt a p)"
  by (simp add: glm_rotate_Y mat_vec_def point4_def rotY_pt_def vadd4_def vscale4_def mult.commute)

lemma mat_vec_rotZ: "mat_vec (glm_rotate a (vec3 0 0 1)) (point4 p) = point4 (rotZ_pt a p)"
  by (simp add: glm_rotate_Z mat_vec_def point4_def rotZ_pt_def vadd4_def vscale4_def mult.commute)

lemma mat_vec_translate: "mat_vec (glm_translate t) (point4 p) = point4 (vadd t p)"
  by (simp add: mat_vec_def glm_translate_def point4_def vadd_def vadd4_def vscale4_def add.commute)

lemma model_matrix_point:
  "mat_vec (model_matrix sc rx ry rz pos) (point4 p)
     = point4 (vadd pos (rotX_pt (radians rx) (rotY_pt (radians ry)
                 (rotZ_pt (radians rz) (scale_pt sc p)))))"
  by (simp add: model_matrix_def mat_vec_mat_mul mat_vec_scale mat_vec_rotX mat_vec_rotY
        mat_vec_rotZ mat_vec_translate)

lemma SetTransformations_emit:
  "m_pShaderManager s \<Longrightarrow>
   SetTransformations sc rx ry rz pos s
     = Inr (emit [SetUniform ''model'' (UMat4 (model_matrix sc rx ry rz pos))] s)"
  by (simp add: SetTransformations_def Let_def model_matrix_def mat_mul_assoc)

lemma example_point:
  "mat_vec (model_matrix (vec3 2 1 1) 0 90 0 (vec3 1 0 0)) (point4 (vec3 3 0 0))
     = vec4 1 0 (- 6) 1"
proof -
  have r: "radians 90 = pi / 2" "radians 0 = 0"
    by (simp_all add: radians_def)
  show ?thesis
    unfolding model_matrix_point
    by (simp add: r rotX_pt_def rotY_pt_def rotZ_pt_def scale_pt_def vadd_def point4_def)
qed

text \<open>
  Claim C6.  With a shader manager, \<open>SetTransformations\<close> publishes as \<open>model\<close> the
  product translation \<open>\<times>\<close> rotationX \<open>\<times>\<close> rotationY \<open>\<times>\<close> rotationZ \<open>\<times>\<close> scale, for
  every scale, angles and position.  Applied to a point, that matrix scales it, rotates it
  about Z, then Y, then X, and translates it.  With scale \<open>(2,1,1)\<close>, rotation
  \<open>(0,90,0)\<close> and position \<open>(1,0,0)\<close> the point \<open>(3,0,0)\<close> lands on \<open>(1,0,-6)\<close>.
\<close>

theorem SetTransformations_model_matrix:
  assumes "m_pShaderManager s"
  shows "SetTransformations sc rx ry rz pos s
           = Inr (emit [SetUniform ''model'' (UMat4 (model_matrix sc rx ry rz pos))] s)
       \<and> mat_vec (model_matrix sc rx ry rz pos) (point4 p)
           = point4 (vadd pos (rotX_pt (radians rx) (rotY_pt (radians ry)
                       (rotZ_pt (radians rz) (scale_pt sc p)))))
       \<and> mat_vec (model_matrix (vec3 2 1 1) 0 90 0 (vec3 1 0 0)) (point4 (vec3 3 0 0))
           = vec4 1 0 (- 6) 1"
proof (intro conjI)
  show "SetTransformations sc rx ry rz pos s
           = Inr (emit [SetUniform ''model'' (UMat4 (model_matrix sc rx ry rz pos))] s)"
    using assms by (rule SetTransformations_emit)
  show "mat_vec (model_matrix sc rx ry rz pos) (point4 p)
           = point4 (vadd pos (rotX_pt (radians rx) (rotY_pt (radians ry)
                       (rotZ_pt (radians rz) (scale_pt sc p)))))"
    by (rule model_matrix_point)
  show "mat_vec (model_matrix (vec3 2 1 1) 0 90 0 (vec3 1 0 0)) (point4 (vec3 3 0 0))
           = vec4 1 0 (- 6) 1"
    by (rule example_point)
qed

theorem SetTransformations_model_matrix_witness:
  "m_pShaderManager (SceneManager_ctor True)
   \<and> SetTransformations (vec3 2 1 1) 0 90 0 (vec3 1 0 0) (SceneManager_ctor True)
       = Inr (emit [SetUniform ''model'' (UMat4 (model_matrix (vec3 2 1 1) 0 90 0 (vec3 1 0 0)))]
               (SceneManager_ctor True))
   \<and> mat_vec (model_matrix (vec3 2 1 1) 0 90 0 (vec3 1 0 0)) (point4 (vec3 3 0 0))
       = vec4 1 0 (- 6) 1"
proof -
  have a: "m_pShaderManager (SceneManager_ctor True)"
    by (simp add: SceneManager_ctor_def)
  from SetTransformations_model_matrix [OF a, of "vec3 2 1 1" 0 90 0 "vec3 1 0 0" "vec3 3 0 0"] a
  show ?thesis by blast
qed

subsection \<open>One frame\<close>

lemma resolved_slot_emit [simp]: "resolved_slot (emit es s) tg = resolved_slot s tg"
  by (simp add: resolved_slot_def FindTextureSlot_table [of "emit es s" s])

lemma resolved_material_calls_emit [simp]:
  "resolved_material_calls (emit es s) uninit tg = resolved_material_calls s uninit tg"
  by (simp add: resolved_material_calls_def FindMaterial_def)

lemma SetShaderTexture_emit:
  assumes "m_pShaderManager s" and "m_loadedTextures s \<le> length (m_textureIDs s)"
  shows "SetShaderTexture tg s
           = Inr (emit [SetUniform ''bUseTexture'' (UInt 1),
                        SetUniform ''objectTexture'' (USampler2D (resolved_slot s tg))] s)"
proof -
  from FindTextureSlot_Inr [OF assms(2), of tg] obtain n where n: "FindTextureSlot s tg = Inr n"
    by blast
  then show ?thesis
    using assms(1)
    by (simp add: SetShaderTexture_def Let_def resolved_slot_def
          FindTextureSlot_table [of "emit [SetUniform ''bUseTexture'' (UInt 1)] s" s])
qed

lemma SetShaderMaterial_emit:
  assumes "m_pShaderManager s"
  shows "SetShaderMaterial uninit tg s = Inr (emit (resolved_material_calls s uninit tg) s)"
proof (cases "m_objectMaterials s = []")
  case True
  then show ?thesis
    by (simp add: SetShaderMaterial_def resolved_material_calls_def emit_def)
next
  case False
  then have "fst (FindMaterial s tg uninit) = True"
    by (simp add: FindMaterial_def)
  with False assms show ?thesis
    by (simp add: SetShaderMaterial_def resolved_material_calls_def material_calls_def
          split_beta)
qed

lemmas Draw_emit = DrawPlaneMesh_def DrawTaperedCylinderMesh_def DrawTorusMesh_def
  DrawCylinderMesh_def DrawConeMesh_def DrawBoxMesh_def

lemma RenderScene_calls:
  assumes "m_pShaderManager s" and "m_loadedTextures s \<le> length (m_textureIDs s)"
  shows "RenderScene uninit s
           = Inr (emit (concat (map (placement_calls s uninit) textured_placements)
                        @ back_right_window_calls) s)"
  using assms
  by (simp add: RenderScene_def SetTransformations_emit SetShaderTexture_emit
        SetShaderMaterial_emit Draw_emit textured_placements_def placement_calls_def
        back_right_window_calls_def)


lemma drawn_meshes_append [simp]: "drawn_meshes (xs @ ys) = drawn_meshes xs @ drawn_meshes ys"
  by (induction xs rule: drawn_meshes.induct) simp_all

lemma loaded_meshes_append [simp]: "loaded_meshes (xs @ ys) = loaded_meshes xs @ loaded_meshes ys"
  by (induction xs rule: loaded_meshes.induct) simp_all

lemma uniform_names_append [simp]: "uniform_names (xs @ ys) = uniform_names xs @ uniform_names ys"
  by (induction xs rule: uniform_names.induct) simp_all

lemma gl_only_append: "gl_only xs \<Longrightarrow> gl_only ys \<Longrightarrow> gl_only (xs @ ys)"
  by (simp add: gl_only_def)

lemma material_calls_projections [simp]:
  "drawn_meshes (material_calls m) = []"
  "uniform_names (material_calls m)
     = [''material.ambientColor'', ''material.ambientStrength'', ''material.diffuseColor'',
        ''material.specularColor'', ''material.shininess'']"
  by (simp_all add: material_calls_def)

lemma resolved_material_calls_draws [simp]:
  "drawn_meshes (resolved_material_calls s uninit tg) = []"
  by (simp add: resolved_material_calls_def)

lemma resolved_material_calls_names:
  "''UVscale'' \<notin> set (uniform_names (resolved_material_calls s uninit tg))"
  by (simp add: resolved_material_calls_def)

lemma placement_calls_draws [simp]:
  "drawn_meshes (placement_calls s uninit p) = [p_mesh p]"
  by (simp add: placement_calls_def)

lemma placement_calls_names:
  "''UVscale'' \<notin> set (uniform_names (placement_calls s uninit p))"
  by (simp add: placement_calls_def resolved_material_calls_names)

lemma concat_placement_calls_draws:
  "drawn_meshes (concat (map (placement_calls s uninit) ps)) = map p_mesh ps"
  by (induction ps) simp_all

lemma concat_placement_calls_names:
  "''UVscale'' \<notin> set (uniform_names (concat (map (placement_calls s uninit) ps)))"
  by (induction ps) (simp_all add: placement_calls_names)

lemma frame_draws:
  "drawn_meshes (concat (map (placement_calls s uninit) textured_placements)
                 @ back_right_window_calls) = frame_meshes"
  by (simp add: concat_placement_calls_draws)
     (simp add: textured_placements_def back_right_window_calls_def frame_meshes_def)

lemma frame_names:
  "''UVscale'' \<notin> set (uniform_names (concat (map (placement_calls s uninit) textured_placements)
                                       @ back_right_window_calls))"
  by (simp add: concat_placement_calls_names) (simp add: back_right_window_calls_def)

text \<open>
  Claim C4, as the code has it.  On a state with a shader manager and a loaded count within
  the table, \<open>RenderScene\<close> succeeds and records, once per frame, for each of the first
  fourteen objects the sequence model matrix, use-texture flag, resolved texture slot,
  the material uniforms, draw of the object's mesh; for the last object the model matrix
  and the draw.  No UV-scale uniform is published.
\<close>

theorem RenderScene_per_object_sequence:
  assumes "m_pShaderManager s" and "m_loadedTextures s \<le> length (m_textureIDs s)"
  shows "RenderScene uninit s
           = Inr (emit (concat (map (placement_calls s uninit) textured_placements)
                        @ back_right_window_calls) s)
       \<and> length textured_placements = 14
       \<and> ''UVscale'' \<notin> set (uniform_names
            (concat (map (placement_calls s uninit) textured_placements) @ back_right_window_calls))"
proof (intro conjI)
  show "RenderScene uninit s
           = Inr (emit (concat (map (placement_calls s uninit) textured_placements)
                        @ back_right_window_calls) s)"
    using assms by (rule RenderScene_calls)
  show "length textured_placements = 14"
    by (simp add: textured_placements_def)
  show "''UVscale'' \<notin> set (uniform_names
            (concat (map (placement_calls s uninit) textured_placements) @ back_right_window_calls))"
    by (rule frame_names)
qed

lemma six_materials_fields:
  "m_pShaderManager six_materials"
  "m_loadedTextures six_materials = 0"
  "length (m_textureIDs six_materials) = 16"
  "calls six_materials = []"
  "m_objectMaterials six_materials \<noteq> []"
  by (simp_all add: six_materials_def SceneManager_ctor_def)

theorem RenderScene_per_object_sequence_witness:
  "m_pShaderManager six_materials
   \<and> m_loadedTextures six_materials \<le> length (m_textureIDs six_materials)
   \<and> RenderScene glassMaterial six_materials
           = Inr (emit (concat (map (placement_calls six_materials glassMaterial) textured_placements)
                        @ back_right_window_calls) six_materials)
   \<and> length textured_placements = 14"
proof -
  have a: "m_pShaderManager six_materials"
    and b: "m_loadedTextures six_materials \<le> length (m_textureIDs six_materials)"
    by (simp_all add: six_materials_fields)
  from RenderScene_per_object_sequence [OF a b, of glassMaterial] a b show ?thesis
    by blast
qed

text \<open>
  Claim C4 as stated fails on the frame drawn over the six defined materials: among the
  recorded calls there are 15 draws but no \<open>UVscale\<close> uniform, and the use-texture flag
  and the material fields are published 14 times.
\<close>

theorem RenderScene_publishes_no_UVscale:
  "map_option (\<lambda>es. (length (drawn_meshes es),
                      count_list (uniform_names es) ''UVscale'',
                      count_list (uniform_names es) ''bUseTexture'',
                      count_list (uniform_names es) ''material.shininess''))
     (calls_of (RenderScene glassMaterial six_materials)) = Some (15, 0, 14, 14)"
proof -
  have a: "m_pShaderManager six_materials"
    and b: "m_loadedTextures six_materials \<le> length (m_textureIDs six_materials)"
    by (simp_all add: six_materials_fields)
  show ?thesis
    unfolding RenderScene_calls [OF a b]
    by (simp add: calls_of_def six_materials_fields textured_placements_def
          back_right_window_calls_def placement_calls_def resolved_material_calls_def)
qed

subsection \<open>Scene setup followed by one frame\<close>

lemma seq_append:
  "seq (xs @ ys) s = (case seq xs s of Inl e \<Rightarrow> Inl e | Inr s' \<Rightarrow> seq ys s')"
  by (induction xs arbitrary: s) (auto split: sum.splits)

lemma texture_tags_register:
  assumes "m_loadedTextures s < length (m_textureIDs s)"
  shows "texture_tags (s\<lparr> m_textureIDs := (m_textureIDs s)[m_loadedTextures s := \<lparr> tag = tg, ID = i \<rparr>],
                          m_loadedTextures := m_loadedTextures s + 1 \<rparr>)
           = texture_tags s @ [tg]"
  using assms by (simp add: texture_tags_def take_Suc_conv_app_nth)

lemma CreateGLTexture_ok:
  assumes "stbi_load f = Some img"
    and "colorChannels img = 3 \<or> colorChannels img = 4"
    and "m_loadedTextures s < length (m_textureIDs s)"
  shows "\<exists>s' es. CreateGLTexture stbi_load f tg s = Inr (True, s')
           \<and> m_pShaderManager s' = m_pShaderManager s
           \<and> m_objectMaterials s' = m_objectMaterials s
           \<and> length (m_textureIDs s') = length (m_textureIDs s)
           \<and> m_loadedTextures s' = m_loadedTextures s + 1
           \<and> texture_tags s' = texture_tags s @ [tg]
           \<and> calls s' = calls s @ es \<and> gl_only es"
proof -
  define s2 where "s2 = emit [GenTextures (word_of_nat (glNames s + 1)),
        BindTexture (word_of_nat (glNames s + 1)),
        TexParameteri ''GL_TEXTURE_WRAP_S'' ''GL_REPEAT'',
        TexParameteri ''GL_TEXTURE_WRAP_T'' ''GL_REPEAT'',
        TexParameteri ''GL_TEXTURE_MIN_FILTER'' ''GL_LINEAR'',
        TexParameteri ''GL_TEXTURE_MAG_FILTER'' ''GL_LINEAR'',
        TexImage2D (if colorChannels img = 3 then ''GL_RGB8'' else ''GL_RGBA8'')
          (width img) (height img),
        GenerateMipmap, ImageFree, BindTexture 0] (s\<lparr> glNames := glNames s + 1 \<rparr>)"
  define s' where "s' = s2\<lparr> m_textureIDs := (m_textureIDs s2)[m_loadedTextures s2 :=
                                 \<lparr> tag = tg, ID = word_of_nat (glNames s + 1) \<rparr>],
                            m_loadedTextures := m_loadedTextures s2 + 1 \<rparr>"
  have f2: "m_textureIDs s2 = m_textureIDs s" "m_loadedTextures s2 = m_loadedTextures s"
    "m_pShaderManager s2 = m_pShaderManager s" "m_objectMaterials s2 = m_objectMaterials s"
    by (simp_all add: s2_def)
  have r: "CreateGLTexture stbi_load f tg s = Inr (True, s')"
    using assms by (auto simp: CreateGLTexture_def Let_def s'_def s2_def)
  have lt: "m_loadedTextures s2 < length (m_textureIDs s2)"
    using assms(3) by (simp add: f2)
  have tt: "texture_tags s' = texture_tags s2 @ [tg]"
    unfolding s'_def using lt by (rule texture_tags_register)
  have t2: "texture_tags s2 = texture_tags s"
    by (simp add: texture_tags_def f2)
  define es where "es = [GenTextures (word_of_nat (glNames s + 1)),
        BindTexture (word_of_nat (glNames s + 1)),
        TexParameteri ''GL_TEXTURE_WRAP_S'' ''GL_REPEAT'',
        TexParameteri ''GL_TEXTURE_WRAP_T'' ''GL_REPEAT'',
        TexParameteri ''GL_TEXTURE_MIN_FILTER'' ''GL_LINEAR'',
        TexParameteri ''GL_TEXTURE_MAG_FILTER'' ''GL_LINEAR'',
        TexImage2D (if colorChannels img = 3 then ''GL_RGB8'' else ''GL_RGBA8'')
          (width img) (height img),
        GenerateMipmap, ImageFree, BindTexture 0]"
  have c: "calls s' = calls s @ es"
    by (simp add: s'_def s2_def es_def)
  have g: "gl_only es"
    by (simp add: gl_only_def es_def)
  have f': "m_pShaderManager s' = m_pShaderManager s"
    "m_objectMaterials s' = m_objectMaterials s"
    "length (m_textureIDs s') = length (m_textureIDs s)"
    "m_loadedTextures s' = m_loadedTextures s + 1"
    by (simp_all add: s'_def f2)
  show ?thesis
    using r tt t2 c g f'
    by (intro exI [of _ s'] exI [of _ es]) simp
qed

lemma load_textures:
  assumes "\<forall>f\<in>set (map fst fts). \<exists>img. stbi_load f = Some img
              \<and> (colorChannels img = 3 \<or> colorChannels img = 4)"
    and "m_loadedTextures s + length fts \<le> length (m_textureIDs s)"
  shows "\<exists>s' es. seq (map (\<lambda>(f, tg). discard (CreateGLTexture stbi_load f tg)) fts) s = Inr s'
           \<and> m_pShaderManager s' = m_pShaderManager s
           \<and> m_objectMaterials s' = m_objectMaterials s
           \<and> length (m_textureIDs s') = length (m_textureIDs s)
           \<and> m_loadedTextures s' = m_loadedTextures s + length fts
           \<and> texture_tags s' = texture_tags s @ map snd fts
           \<and> calls s' = calls s @ es \<and> gl_only es"
  using assms
proof (induction fts arbitrary: s)
  case Nil
  show ?case by (simp add: gl_only_def)
next
  case (Cons ft fts)
  obtain f tg where ft: "ft = (f, tg)" by (cases ft)
  from Cons.prems(1) obtain img where img: "stbi_load f = Some img"
    "colorChannels img = 3 \<or> colorChannels img = 4"
    by (auto simp: ft)
  from Cons.prems(2) have lt: "m_loadedTextures s < length (m_textureIDs s)" by simp
  from CreateGLTexture_ok [of stbi_load f img s tg, OF img lt]
  obtain s1 es1 where s1: "CreateGLTexture stbi_load f tg s = Inr (True, s1)"
    "m_pShaderManager s1 = m_pShaderManager s"
    "m_objectMaterials s1 = m_objectMaterials s"
    "length (m_textureIDs s1) = length (m_textureIDs s)"
    "m_loadedTextures s1 = m_loadedTextures s + 1"
    "texture_tags s1 = texture_tags s @ [tg]"
    "calls s1 = calls s @ es1" "gl_only es1"
    by blast
  have p1: "\<forall>f\<in>set (map fst fts). \<exists>img. stbi_load f = Some img
              \<and> (colorChannels img = 3 \<or> colorChannels img = 4)"
    using Cons.prems(1) by simp
  have p2: "m_loadedTextures s1 + length fts \<le> length (m_textureIDs s1)"
    using Cons.prems(2) s1 by simp
  from Cons.IH [OF p1 p2]
  obtain s' es where s': "seq (map (\<lambda>(f, tg). discard (CreateGLTexture stbi_load f tg)) fts) s1 = Inr s'"
    "m_pShaderManager s' = m_pShaderManager s1"
    "m_objectMaterials s' = m_objectMaterials s1"
    "length (m_textureIDs s') = length (m_textureIDs s1)"
    "m_loadedTextures s' = m_loadedTextures s1 + length fts"
    "texture_tags s' = texture_tags s1 @ map snd fts"
    "calls s' = calls s1 @ es" "gl_only es"
    by blast
  have "seq (map (\<lambda>(f, tg). discard (CreateGLTexture stbi_load f tg)) (ft # fts)) s = Inr s'"
    using s1(1) s'(1) by (simp add: ft discard_def)
  moreover have "calls s' = calls s @ (es1 @ es)" using s1 s' by simp
  moreover have "gl_only (es1 @ es)" using s1 s' by (simp add: gl_only_append)
  ultimately show ?case
    using s1 s' by (intro exI [of _ s'] exI [of _ "es1 @ es"]) (simp add: ft)
qed

lemma BindGLTextures_loop_ok:
  assumes "m_loadedTextures s \<le> length (m_textureIDs s)"
  shows "\<exists>es. BindGLTextures_loop i s = Inr (emit es s) \<and> gl_only es"
  using assms
proof (induction "m_loadedTextures s - i" arbitrary: i s)
  case 0
  then have "BindGLTextures_loop i s = Inr (emit [] s)"
    by (simp add: BindGLTextures_loop.simps [of i s] emit_def)
  then show ?case by (intro exI [of _ "[]"]) (simp add: gl_only_def)
next
  case (Suc n)
  define s1 where "s1 = emit [ActiveTexture i, BindTexture (ID (m_textureIDs s ! i))] s"
  have lt: "i < m_loadedTextures s" "i < length (m_textureIDs s)"
    using Suc.hyps(2) Suc.prems by simp_all
  have "n = m_loadedTextures s1 - (i + 1)" "m_loadedTextures s1 \<le> length (m_textureIDs s1)"
    using Suc.hyps(2) Suc.prems by (simp_all add: s1_def)
  from Suc.hyps(1) [OF this]
  obtain es where es: "BindGLTextures_loop (i + 1) s1 = Inr (emit es s1)" "gl_only es"
    by blast
  have "BindGLTextures_loop i s = Inr (emit es s1)"
    using lt es(1) by (simp add: BindGLTextures_loop.simps [of i s] s1_def)
  moreover have "emit es s1 = emit ([ActiveTexture i, BindTexture (ID (m_textureIDs s ! i))] @ es) s"
    by (simp add: s1_def)
  moreover have "gl_only ([ActiveTexture i, BindTexture (ID (m_textureIDs s ! i))] @ es)"
    using es(2) by (simp add: gl_only_def)
  ultimately show ?case by metis
qed

lemma LoadSceneTextures_seq:
  "LoadSceneTextures stbi_load
     = seq (map (\<lambda>(f, tg). discard (CreateGLTexture stbi_load f tg)) scene_textures
            @ [BindGLTextures])"
  by (simp add: LoadSceneTextures_def scene_textures_def)

lemma LoadSceneTextures_ok:
  assumes "\<forall>f\<in>set (map fst scene_textures). \<exists>img. stbi_load f = Some img
              \<and> (colorChannels img = 3 \<or> colorChannels img = 4)"
  shows "\<exists>s' es. LoadSceneTextures stbi_load (SceneManager_ctor True) = Inr s'
           \<and> m_pShaderManager s'
           \<and> m_objectMaterials s' = []
           \<and> length (m_textureIDs s') = 16
           \<and> m_loadedTextures s' = 8
           \<and> texture_tags s' = map snd scene_textures
           \<and> calls s' = es \<and> gl_only es"
proof -
  have "m_loadedTextures (SceneManager_ctor True) + length scene_textures
          \<le> length (m_textureIDs (SceneManager_ctor True))"
    by (simp add: SceneManager_ctor_def scene_textures_def)
  from load_textures [OF assms this]
  obtain s1 es1 where s1:
    "seq (map (\<lambda>(f, tg). discard (CreateGLTexture stbi_load f tg)) scene_textures)
       (SceneManager_ctor True) = Inr s1"
    "m_pShaderManager s1 = m_pShaderManager (SceneManager_ctor True)"
    "m_objectMaterials s1 = m_objectMaterials (SceneManager_ctor True)"
    "length (m_textureIDs s1) = length (m_textureIDs (SceneManager_ctor True))"
    "m_loadedTextures s1 = m_loadedTextures (SceneManager_ctor True) + length scene_textures"
    "texture_tags s1 = texture_tags (SceneManager_ctor True) @ map snd scene_textures"
    "calls s1 = calls (SceneManager_ctor True) @ es1" "gl_only es1"
    by blast
  have f1: "m_pShaderManager s1" "m_objectMaterials s1 = []" "length (m_textureIDs s1) = 16"
    "m_loadedTextures s1 = 8" "texture_tags s1 = map snd scene_textures" "calls s1 = es1"
    using s1 by (simp_all add: SceneManager_ctor_def texture_tags_def scene_textures_def)
  have "m_loadedTextures s1 \<le> length (m_textureIDs s1)" using f1 by simp
  from BindGLTextures_loop_ok [OF this, of 0]
  obtain es2 where es2: "BindGLTextures s1 = Inr (emit es2 s1)" "gl_only es2"
    by (auto simp: BindGLTextures_def)
  have "LoadSceneTextures stbi_load (SceneManager_ctor True) = Inr (emit es2 s1)"
    using s1(1) es2(1) by (simp add: LoadSceneTextures_seq seq_append)
  moreover have "texture_tags (emit es2 s1) = texture_tags s1"
    by (simp add: texture_tags_def)
  moreover have "gl_only (es1 @ es2)" using s1 es2 by (simp add: gl_only_append)
  ultimately show ?thesis
    using f1 by (intro exI [of _ "emit es2 s1"] exI [of _ "es1 @ es2"]) simp
qed


lemma DefineObjectMaterials_push:
  "DefineObjectMaterials s
     = Inr (s\<lparr> m_objectMaterials := m_objectMaterials s @
              [ceramicMaterial, marbleMaterial, paperMaterial, plasticMaterial,
               dullPlasticMaterial, glassMaterial] \<rparr>)"
  by (simp add: DefineObjectMaterials_def push_back_def)

lemmas Load_emit = LoadPlaneMesh_def LoadTaperedCylinderMesh_def LoadTorusMesh_def
  LoadCylinderMesh_def LoadConeMesh_def LoadBoxMesh_def

lemma light_uniforms_names:
  "uniform_names (light_uniforms name pos amb dif spec focal intensity)
     = map (\<lambda>field. name @ field)
         [''.position'', ''.ambientColor'', ''.diffuseColor'', ''.specularColor'',
          ''.focalStrength'', ''.specularIntensity'']"
  "drawn_meshes (light_uniforms name pos amb dif spec focal intensity) = []"
  "loaded_meshes (light_uniforms name pos amb dif spec focal intensity) = []"
  by (simp_all add: light_uniforms_def)

lemma PrepareScene_ok:
  assumes "\<forall>f\<in>set (map fst scene_textures). \<exists>img. stbi_load f = Some img
              \<and> (colorChannels img = 3 \<or> colorChannels img = 4)"
  shows "\<exists>s1. PrepareScene stbi_load (SceneManager_ctor True) = Inr s1
           \<and> m_pShaderManager s1
           \<and> m_loadedTextures s1 \<le> length (m_textureIDs s1)
           \<and> m_loadedTextures s1 = 8
           \<and> texture_tags s1 = [''mug'', ''table'', ''blackPlastic'', ''whitePlastic'',
                                 ''bluePlastic'', ''redPaper'', ''blackBook'', ''brownBook'']
           \<and> map mtag (m_objectMaterials s1)
                = [''ceramic'', ''marble'', ''paper'', ''plastic'', ''dullPlastic'', ''glass'']
           \<and> loaded_meshes (calls s1) = [Plane, TaperedCylinder, Torus, Cylinder, Cone, Box]
           \<and> uniform_names (calls s1) = light_uniform_names
           \<and> drawn_meshes (calls s1) = []"
proof -
  from LoadSceneTextures_ok [OF assms]
  obtain s0 es where s0: "LoadSceneTextures stbi_load (SceneManager_ctor True) = Inr s0"
    "m_pShaderManager s0" "m_objectMaterials s0 = []" "length (m_textureIDs s0) = 16"
    "m_loadedTextures s0 = 8" "texture_tags s0 = map snd scene_textures"
    "calls s0 = es" "gl_only es"
    by blast
  define sm where "sm = s0\<lparr> m_objectMaterials := m_objectMaterials s0 @
              [ceramicMaterial, marbleMaterial, paperMaterial, plasticMaterial,
               dullPlasticMaterial, glassMaterial] \<rparr>"
  define lights where "lights =
         light_uniforms ''lightSources[0]'' (vec3 (- 20) 15 (- 16.5)) (vec3 0.2 0.2 0.2)
             (vec3 1 0.95 0.9) (vec3 1 0.95 0.9) 10 0.2
         @ light_uniforms ''lightSources[1]'' (vec3 (- 20) 6 (- 16.5)) (vec3 0.2 0.2 0.2)
             (vec3 0.8 0.75 0.7) (vec3 0.5 0.5 0.5) 0.01 0
         @ light_uniforms ''lightSources[2]'' (vec3 20 15 (- 16.5)) (vec3 0.2 0.2 0.2)
             (vec3 1 0.95 0.9) (vec3 1 0.95 0.9) 10 0.2
         @ light_uniforms ''lightSources[3]'' (vec3 20 6 (- 16.5)) (vec3 0.2 0.2 0.2)
             (vec3 0.8 0.75 0.7) (vec3 0.5 0.5 0.5) 0.01 0
         @ [SetUniform ''bUseLighting'' (UBool True)]"
  define loads where "loads = [LoadMesh Plane, LoadMesh TaperedCylinder, LoadMesh Torus,
                               LoadMesh Cylinder, LoadMesh Cone, LoadMesh Box]"
  define s1 where "s1 = emit (lights @ loads) sm"
  have sm: "m_pShaderManager sm" "m_textureIDs sm = m_textureIDs s0"
    "m_loadedTextures sm = 8" "calls sm = es"
    using s0 by (simp_all add: sm_def)
  have l: "SetupSceneLights sm = Inr (emit lights sm)"
    using sm(1) by (simp add: SetupSceneLights_def lights_def)
  have p: "PrepareScene stbi_load (SceneManager_ctor True) = Inr s1"
    using s0(1) l sm(1)
    by (simp add: PrepareScene_def DefineObjectMaterials_push sm_def [symmetric] Load_emit
          s1_def loads_def)
  have f1: "m_pShaderManager s1" "m_loadedTextures s1 \<le> length (m_textureIDs s1)"
    "m_loadedTextures s1 = 8"
    using sm s0 by (simp_all add: s1_def)
  have tt: "texture_tags s1 = [''mug'', ''table'', ''blackPlastic'', ''whitePlastic'',
                                 ''bluePlastic'', ''redPaper'', ''blackBook'', ''brownBook'']"
    using s0(6) by (simp add: s1_def sm_def texture_tags_def scene_textures_def)
  have mt: "map mtag (m_objectMaterials s1)
                = [''ceramic'', ''marble'', ''paper'', ''plastic'', ''dullPlastic'', ''glass'']"
    using s0(3)
    by (simp add: s1_def sm_def ceramicMaterial_def marbleMaterial_def paperMaterial_def
          plasticMaterial_def dullPlasticMaterial_def glassMaterial_def)
  have c1: "calls s1 = es @ lights @ loads"
    using sm by (simp add: s1_def)
  have ln: "uniform_names lights = light_uniform_names"
    by (simp add: lights_def light_uniforms_names light_uniform_names_def)
  have ld: "drawn_meshes lights = []" "loaded_meshes lights = []"
    by (simp_all add: lights_def light_uniforms_names)
  have lo: "loaded_meshes loads = [Plane, TaperedCylinder, Torus, Cylinder, Cone, Box]"
    "drawn_meshes loads = []" "uniform_names loads = []"
    by (simp_all add: loads_def)
  have pr: "loaded_meshes (calls s1) = [Plane, TaperedCylinder, Torus, Cylinder, Cone, Box]"
    "uniform_names (calls s1) = light_uniform_names" "drawn_meshes (calls s1) = []"
    using s0(8) by (simp_all add: c1 ln ld lo gl_only_def)
  show ?thesis
    using p f1 tt mt pr by (intro exI [of _ s1]) simp
qed

text \<open>
  Claim C3, as the code has it.  When each of the eight image files decodes with 3 or 4
  channels, \<open>PrepareScene\<close> on the constructed scene (with a shader manager) succeeds and
  registers the 8 textures, defines the 6 materials, publishes the uniforms of the 4 lights
  and loads the 6 mesh kinds, without drawing; one \<open>RenderScene\<close> pass after it succeeds
  and invokes exactly 15 mesh draws, one per object block of the source.
\<close>

theorem scene_setup_then_fifteen_draws:
  assumes "\<forall>f\<in>set (map fst scene_textures). \<exists>img. stbi_load f = Some img
              \<and> (colorChannels img = 3 \<or> colorChannels img = 4)"
  shows "\<exists>s1 s2. PrepareScene stbi_load (SceneManager_ctor True) = Inr s1
           \<and> m_loadedTextures s1 = 8
           \<and> texture_tags s1 = [''mug'', ''table'', ''blackPlastic'', ''whitePlastic'',
                                 ''bluePlastic'', ''redPaper'', ''blackBook'', ''brownBook'']
           \<and> map mtag (m_objectMaterials s1)
                = [''ceramic'', ''marble'', ''paper'', ''plastic'', ''dullPlastic'', ''glass'']
           \<and> loaded_meshes (calls s1) = [Plane, TaperedCylinder, Torus, Cylinder, Cone, Box]
           \<and> uniform_names (calls s1) = light_uniform_names
           \<and> drawn_meshes (calls s1) = []
           \<and> RenderScene uninit s1 = Inr s2
           \<and> drawn_meshes (calls s2) = frame_meshes
           \<and> length (drawn_meshes (calls s2)) = 15"
proof -
  from PrepareScene_ok [OF assms]
  obtain s1 where s1: "PrepareScene stbi_load (SceneManager_ctor True) = Inr s1"
    and sh: "m_pShaderManager s1"
    and wf: "m_loadedTextures s1 \<le> length (m_textureIDs s1)"
    and facts: "m_loadedTextures s1 = 8"
      "texture_tags s1 = [''mug'', ''table'', ''blackPlastic'', ''whitePlastic'',
                          ''bluePlastic'', ''redPaper'', ''blackBook'', ''brownBook'']"
      "map mtag (m_objectMaterials s1)
         = [''ceramic'', ''marble'', ''paper'', ''plastic'', ''dullPlastic'', ''glass'']"
      "loaded_meshes (calls s1) = [Plane, TaperedCylinder, Torus, Cylinder, Cone, Box]"
      "uniform_names (calls s1) = light_uniform_names"
    and nodraw: "drawn_meshes (calls s1) = []"
    by (elim exE conjE)
  define frame where "frame = concat (map (placement_calls s1 uninit) textured_placements)
                                @ back_right_window_calls"
  have r: "RenderScene uninit s1 = Inr (emit frame s1)"
    unfolding frame_def using sh wf by (rule RenderScene_calls)
  have "drawn_meshes (calls (emit frame s1)) = drawn_meshes (calls s1) @ drawn_meshes frame"
    unfolding emit_fields by (rule drawn_meshes_append)
  also have "\<dots> = frame_meshes"
    unfolding frame_def frame_draws nodraw by simp
  finally have d: "drawn_meshes (calls (emit frame s1)) = frame_meshes" .
  have n: "length frame_meshes = 15"
    by (simp add: frame_meshes_def)
  show ?thesis
    using s1 facts nodraw r d n
    by (intro exI [of _ s1] exI [of _ "emit frame s1"]) (simp only: simp_thms)
qed


lemma rgb_decoder_ok:
  "\<forall>f\<in>set (map fst scene_textures). \<exists>img. rgb_decoder f = Some img
              \<and> (colorChannels img = 3 \<or> colorChannels img = 4)"
  by (simp add: rgb_decoder_def)

theorem scene_setup_then_fifteen_draws_witness:
  "\<exists>s1 s2. PrepareScene rgb_decoder (SceneManager_ctor True) = Inr s1
           \<and> m_loadedTextures s1 = 8
           \<and> map mtag (m_objectMaterials s1)
                = [''ceramic'', ''marble'', ''paper'', ''plastic'', ''dullPlastic'', ''glass'']
           \<and> loaded_meshes (calls s1) = [Plane, TaperedCylinder, Torus, Cylinder, Cone, Box]
           \<and> RenderScene glassMaterial s1 = Inr s2
           \<and> length (drawn_meshes (calls s2)) = 15"
proof -
  from scene_setup_then_fifteen_draws [of rgb_decoder glassMaterial, OF rgb_decoder_ok]
  obtain s1 s2 where "PrepareScene rgb_decoder (SceneManager_ctor True) = Inr s1
           \<and> m_loadedTextures s1 = 8
           \<and> texture_tags s1 = [''mug'', ''table'', ''blackPlastic'', ''whitePlastic'',
                                 ''bluePlastic'', ''redPaper'', ''blackBook'', ''brownBook'']
           \<and> map mtag (m_objectMaterials s1)
                = [''ceramic'', ''marble'', ''paper'', ''plastic'', ''dullPlastic'', ''glass'']
           \<and> loaded_meshes (calls s1) = [Plane, TaperedCylinder, Torus, Cylinder, Cone, Box]
           \<and> uniform_names (calls s1) = light_uniform_names
           \<and> drawn_meshes (calls s1) = []
           \<and> RenderScene glassMaterial s1 = Inr s2
           \<and> drawn_meshes (calls s2) = frame_meshes
           \<and> length (drawn_meshes (calls s2)) = 15"
    by (elim exE)
  then show ?thesis
    by (intro exI [of _ s1] exI [of _ s2]) (elim conjE, simp add: frame_meshes_def)
qed

text \<open>
  Claim C3 as stated fails on the reference scene: after the setup with a decoder that
  reads every file as RGB, one frame invokes 15 draws, not 17.
\<close>

theorem reference_scene_draw_count:
  "map_option (\<lambda>es. length (drawn_meshes es))
     (calls_of (seq [PrepareScene rgb_decoder, RenderScene glassMaterial] (SceneManager_ctor True)))
     = Some 15
   \<and> map_option (\<lambda>es. length (drawn_meshes es))
     (calls_of (seq [PrepareScene rgb_decoder, RenderScene glassMaterial] (SceneManager_ctor True)))
     \<noteq> Some 17"
proof -
  from PrepareScene_ok [OF rgb_decoder_ok]
  obtain s1 where s1: "PrepareScene rgb_decoder (SceneManager_ctor True) = Inr s1"
    and sh: "m_pShaderManager s1"
    and wf: "m_loadedTextures s1 \<le> length (m_textureIDs s1)"
    and nodraw: "drawn_meshes (calls s1) = []"
    by (elim exE conjE)
  define frame where "frame = concat (map (placement_calls s1 glassMaterial) textured_placements)
                                @ back_right_window_calls"
  have r: "RenderScene glassMaterial s1 = Inr (emit frame s1)"
    unfolding frame_def using sh wf by (rule RenderScene_calls)
  have "drawn_meshes (calls (emit frame s1)) = drawn_meshes (calls s1) @ drawn_meshes frame"
    unfolding emit_fields by (rule drawn_meshes_append)
  also have "\<dots> = frame_meshes"
    unfolding frame_def frame_draws nodraw by simp
  finally have "length (drawn_meshes (calls (emit frame s1))) = 15"
    by (simp add: frame_meshes_def)
  with s1 r show ?thesis
    by (simp add: calls_of_def)
qed

end
